theory Spec2Isabelle
  imports Main "HOL-Library.Sublist" "HOL-Library.AList"
begin

section \<open>Python values\<close>

text \<open>
  A Python \<open>str\<close> is modelled as a \<open>string\<close>, a list of \<open>char\<close>, each \<open>char\<close> read as one
  code point below 256; \<open>len\<close> is \<open>length\<close>. Python's unbounded \<open>int\<close> is \<open>int\<close>.
  \<open>Optional[str]\<close> is \<open>string option\<close>. Truthiness is written out where the source
  tests a value: a string is true when it is not empty, an optional string when it is
  neither \<open>None\<close> nor empty, a list when it is not empty, an object reference when it is
  not \<open>None\<close>.
\<close>

definition newline :: string where
  "newline = [CHR 0x0A]"

text \<open>\<open>sep.join(xs)\<close>\<close>

fun join :: "string \<Rightarrow> string list \<Rightarrow> string" where
  "join sep [] = []"
| "join sep [x] = x"
| "join sep (x # y # ys) = x @ sep @ join sep (y # ys)"

text \<open>\<open>s.split("\\n")\<close>: the lines of a text.\<close>

fun split_newline :: "string \<Rightarrow> string list" where
  "split_newline [] = [[]]"
| "split_newline (c # cs) =
     (if c = CHR 0x0A then [] # split_newline cs
      else (case split_newline cs of [] \<Rightarrow> [[c]] | l # ls \<Rightarrow> (c # l) # ls))"

text \<open>\<open>str(n)\<close> for an integer, as an f-string prints it: decimal, with a minus sign.\<close>

definition digit_char :: "nat \<Rightarrow> char" where
  "digit_char d = char_of (48 + d)"

fun str_nat :: "nat \<Rightarrow> string" where
  "str_nat n = (if n < 10 then [digit_char n] else str_nat (n div 10) @ [digit_char (n mod 10)])"

declare str_nat.simps [simp del]

definition str_int :: "int \<Rightarrow> string" where
  "str_int i = (if i < 0 then CHR ''-'' # str_nat (nat (- i)) else str_nat (nat i))"

definition truthy :: "string option \<Rightarrow> bool" where
  "truthy v = (case v of None \<Rightarrow> False | Some s \<Rightarrow> s \<noteq> [])"

text \<open>\<open>needle in haystack\<close> on strings is \<^const>\<open>sublist\<close>: a contiguous occurrence.\<close>

text \<open>
  The idiom \<open>if v: parts.append(f"label{v}")\<close> for an optional string \<open>v\<close>.
\<close>

definition opt_line :: "string \<Rightarrow> string option \<Rightarrow> string list" where
  "opt_line label v = (case v of None \<Rightarrow> [] | Some s \<Rightarrow> if s = [] then [] else [label @ s])"

text \<open>
  Values that are not statically typed (a parsed JSON body, a dictionary of mixed values)
  are \<open>json\<close>; \<open>JNull\<close> is Python's \<open>None\<close>, a \<open>JObj\<close> is a \<open>dict\<close> in insertion order,
  looked up with \<^const>\<open>map_of\<close>. Numbers are integers; floating point is left out.
\<close>

datatype json = JNull | JBool bool | JInt int | JStr string | JArr "json list"
  | JObj "(string \<times> json) list"

text \<open>
  An exception is its class and its message. \<open>RequestException\<close> stands for the
  classes of \<open>requests.exceptions\<close>; every class below derives from \<open>Exception\<close>.
\<close>

datatype py_exc = RequestException string | KeyError string | TypeError string
  | AttributeError string | ValueError string | OSError string

text \<open>\<open>str(e)\<close>; a \<open>KeyError\<close> prints the \<open>repr\<close> of its key.\<close>

fun exc_text :: "py_exc \<Rightarrow> string" where
  "exc_text (RequestException m) = m"
| "exc_text (KeyError k) = [CHR 0x27] @ k @ [CHR 0x27]"
| "exc_text (TypeError m) = m"
| "exc_text (AttributeError m) = m"
| "exc_text (ValueError m) = m"
| "exc_text (OSError m) = m"


section \<open>The questionnaire model (sop\_questionnaire.py)\<close>

datatype VideoStyle = PROFESSIONAL | CASUAL | EDUCATIONAL | PROMOTIONAL

datatype PlatformTarget = INSTAGRAM | TIKTOK | YOUTUBE_SHORTS | FACEBOOK | LINKEDIN | TWITTER

record SOPSegment =
  segment_number :: int
  title :: string
  description :: string
  key_action :: string
  visual_focus :: string
  duration :: int
  text_overlay :: "string option"
  voiceover_script :: "string option"
  props_needed :: "string list"
  location :: "string option"

record SOPQuestionnaire =
  project_title :: string
  sop_purpose :: string
  target_audience :: string
  video_style :: VideoStyle
  brand_colors :: "string list"
  brand_fonts :: "string list"
  target_platforms :: "PlatformTarget list"
  presenter_type :: string
  presenter_description :: "string option"
  presenter_clothing :: "string option"
  primary_location :: string
  location_description :: string
  lighting_preference :: string
  segments :: "SOPSegment list"
  company_name :: "string option"
  logo_placement :: "string option"
  intro_outro_needed :: bool
  music_style :: "string option"
  voiceover_needed :: bool
  voiceover_language :: string
  consistency_mode :: string

subsection \<open>\<open>SOPQuestionnaire.validate\<close>\<close>

text \<open>
  The result is the source's pair \<open>(is_valid, error)\<close>. The loop over the segments is
  \<open>validate_segments\<close>: it returns at the first segment that misses a field.
\<close>

fun validate_segments :: "SOPSegment list \<Rightarrow> bool \<times> string option" where
  "validate_segments [] = (True, None)"
| "validate_segments (s # ss) =
     (if title s = [] then
        (False, Some (''Segment '' @ str_int (segment_number s) @ '' missing title''))
      else if description s = [] then
        (False, Some (''Segment '' @ str_int (segment_number s) @ '' missing description''))
      else if key_action s = [] then
        (False, Some (''Segment '' @ str_int (segment_number s) @ '' missing key action''))
      else validate_segments ss)"

definition validate :: "SOPQuestionnaire \<Rightarrow> bool \<times> string option" where
  "validate q =
     (if project_title q = [] then (False, Some ''Project title is required'')
      else if sop_purpose q = [] then (False, Some ''SOP purpose is required'')
      else if target_audience q = [] then (False, Some ''Target audience is required'')
      else if length (segments q) = 0 then (False, Some ''At least one segment is required'')
      else if length (segments q) > 6 then
        (False, Some ''Maximum 6 segments allowed (48 seconds total)'')
      else validate_segments (segments q))"

text \<open>
  The contract of \<open>validate\<close> in the specification's words: the checks in the order in
  which they are listed, each with its reason, and the first one that fails decides.
\<close>

definition segment_checks :: "SOPSegment \<Rightarrow> (bool \<times> string) list" where
  "segment_checks s =
     [(title s = [], ''Segment '' @ str_int (segment_number s) @ '' missing title''),
      (description s = [], ''Segment '' @ str_int (segment_number s) @ '' missing description''),
      (key_action s = [], ''Segment '' @ str_int (segment_number s) @ '' missing key action'')]"

definition ordered_checks :: "SOPQuestionnaire \<Rightarrow> (bool \<times> string) list" where
  "ordered_checks q =
     [(project_title q = [], ''Project title is required''),
      (sop_purpose q = [], ''SOP purpose is required''),
      (target_audience q = [], ''Target audience is required''),
      (length (segments q) = 0, ''At least one segment is required''),
      (length (segments q) > 6, ''Maximum 6 segments allowed (48 seconds total)'')]
     @ concat (map segment_checks (segments q))"

definition first_failure :: "SOPQuestionnaire \<Rightarrow> bool \<times> string option" where
  "first_failure q =
     (case find fst (ordered_checks q) of
        None \<Rightarrow> (True, None)
      | Some c \<Rightarrow> (False, Some (snd c)))"

definition complete_segment :: "SOPSegment \<Rightarrow> bool" where
  "complete_segment s = (title s \<noteq> [] \<and> description s \<noteq> [] \<and> key_action s \<noteq> [])"

text \<open>The reason \<open>validate\<close> gives for a segment that is not complete.\<close>

definition segment_reason :: "SOPSegment \<Rightarrow> string" where
  "segment_reason s =
     ''Segment '' @ str_int (segment_number s) @
     (if title s = [] then '' missing title''
      else if description s = [] then '' missing description''
      else '' missing key action'')"


text \<open>The dataclass constructors with their default values.\<close>

definition SOPSegment_init :: "int \<Rightarrow> string \<Rightarrow> string \<Rightarrow> string \<Rightarrow> string \<Rightarrow> SOPSegment" where
  "SOPSegment_init n t d k v =
     \<lparr>segment_number = n, title = t, description = d, key_action = k, visual_focus = v,
      duration = 8, text_overlay = None, voiceover_script = None, props_needed = [],
      location = None\<rparr>"

definition SOPQuestionnaire_init ::
  "string \<Rightarrow> string \<Rightarrow> string \<Rightarrow> VideoStyle \<Rightarrow> SOPQuestionnaire" where
  "SOPQuestionnaire_init t p a st =
     \<lparr>project_title = t, sop_purpose = p, target_audience = a, video_style = st,
      brand_colors = [], brand_fonts = [], target_platforms = [],
      presenter_type = ''none'', presenter_description = None, presenter_clothing = None,
      primary_location = [], location_description = [],
      lighting_preference = ''bright_professional'', segments = [],
      company_name = None, logo_placement = None, intro_outro_needed = True,
      music_style = None, voiceover_needed = False, voiceover_language = ''english'',
      consistency_mode = ''strict''\<rparr>"

text \<open>
  The segment list with the numbers \<open>ns\<close> written over the segments' own, position by
  position.
\<close>

definition renumber :: "int list \<Rightarrow> SOPSegment list \<Rightarrow> SOPSegment list" where
  "renumber ns ss = map2 (\<lambda>s n. s\<lparr>segment_number := n\<rparr>) ss ns"


section \<open>The request and response of the client (veo3\_client.py)\<close>

record VideoGenerationRequest =
  prompt :: string
  duration :: "int option"
  resolution :: "string option"
  fps :: "int option"
  aspect_ratio :: "string option"
  consistency_markers :: "(string \<times> json) list option"
  scene_id :: "string option"
  sequence_id :: "string option"


section \<open>The prompt translator (sop\_translator.py)\<close>

definition style_to_cinematography :: "VideoStyle \<Rightarrow> string option" where
  "style_to_cinematography st =
     (case st of
        PROFESSIONAL \<Rightarrow>
          Some ''steady, professional camera work, clean composition, corporate aesthetic''
      | CASUAL \<Rightarrow>
          Some ''handheld feel, natural movement, relaxed framing, approachable style''
      | EDUCATIONAL \<Rightarrow>
          Some ''clear, focused shots, instructional framing, detailed visibility''
      | PROMOTIONAL \<Rightarrow>
          Some ''dynamic angles, engaging movement, polished production, eye-catching'')"

definition style_to_lighting :: "VideoStyle \<Rightarrow> string option" where
  "style_to_lighting st =
     (case st of
        PROFESSIONAL \<Rightarrow> Some ''bright, even professional lighting, high-key setup''
      | CASUAL \<Rightarrow> Some ''natural lighting, soft shadows, warm tones''
      | EDUCATIONAL \<Rightarrow>
          Some ''clear, well-lit environment, no harsh shadows, visibility priority''
      | PROMOTIONAL \<Rightarrow>
          Some ''dramatic lighting, vibrant colors, high contrast, professional grade'')"

subsection \<open>\<open>translate_segment\<close>\<close>

text \<open>
  \<open>prompt_parts\<close> is the list the source appends to, section by section in the order of
  the source; a section that its condition leaves out contributes no element.
\<close>

definition scene_parts :: "SOPSegment \<Rightarrow> string list" where
  "scene_parts seg =
     [''[8-second video segment - '' @ title seg @ '']'',
      [],
      ''Scene: '' @ description seg,
      ''Key Action: '' @ key_action seg,
      ''Visual Focus: '' @ visual_focus seg,
      []]"

definition presenter_parts :: "SOPQuestionnaire \<Rightarrow> string list" where
  "presenter_parts q =
     (if presenter_type q = ''person'' then
        opt_line ''Presenter: '' (presenter_description q)
        @ opt_line ''Clothing: '' (presenter_clothing q)
        @ [''Presenter position: Center frame, professional posture, engaging with camera'',
           []]
      else if presenter_type q = ''animated_character'' then
        opt_line ''Animated Character: '' (presenter_description q)
        @ [''Character animation: Smooth, professional quality, expressive'', []]
      else [])"

definition location_parts :: "SOPSegment \<Rightarrow> SOPQuestionnaire \<Rightarrow> string list" where
  "location_parts seg q =
     (if truthy (location seg) then opt_line ''Location: '' (location seg)
      else if primary_location q \<noteq> [] then [''Location: '' @ primary_location q]
      else [])
     @ (if location_description q \<noteq> [] then [location_description q] else [])
     @ [[]]"

definition style_parts :: "SOPQuestionnaire \<Rightarrow> string list" where
  "style_parts q =
     [''Cinematography: '' @
        (case style_to_cinematography (video_style q) of
           Some c \<Rightarrow> c | None \<Rightarrow> ''professional, clean composition''),
      ''Lighting: '' @
        (case style_to_lighting (video_style q) of
           Some l \<Rightarrow> l | None \<Rightarrow> lighting_preference q),
      []]"

definition color_parts :: "SOPQuestionnaire \<Rightarrow> string list" where
  "color_parts q =
     (if brand_colors q \<noteq> [] then
        [''Color palette: '' @ join '', '' (brand_colors q) @ '', maintaining brand consistency'',
         []]
      else [])"

definition overlay_parts :: "SOPSegment \<Rightarrow> SOPQuestionnaire \<Rightarrow> string list" where
  "overlay_parts seg q =
     (case text_overlay seg of
        None \<Rightarrow> []
      | Some t \<Rightarrow>
          if t = [] then []
          else
            [''Text Overlay: '' @ [CHR 0x27] @ t @ [CHR 0x27],
             ''Text position: Lower third, clean sans-serif font, high contrast'']
            @ (case brand_colors q of [] \<Rightarrow> [] | c # _ \<Rightarrow> [''Text color: '' @ c])
            @ [[]])"

definition props_parts :: "SOPSegment \<Rightarrow> string list" where
  "props_parts seg =
     (if props_needed seg \<noteq> [] then
        [''Props visible: '' @ join '', '' (props_needed seg), []]
      else [])"

definition continuity_parts ::
  "SOPSegment \<Rightarrow> SOPQuestionnaire \<Rightarrow> SOPSegment option \<Rightarrow> string list" where
  "continuity_parts seg q previous_segment =
     (case previous_segment of
        None \<Rightarrow> []
      | Some prev \<Rightarrow>
          if segment_number seg > 1 then
            [''CONTINUITY REQUIREMENTS:'']
            @ (if presenter_type q \<in> set [''person'', ''animated_character''] then
                 [''- Presenter MUST match exact appearance from Segment '' @
                    str_int (segment_number prev)]
                 @ opt_line ''- Maintain exact clothing: '' (presenter_clothing q)
               else [])
            @ (if primary_location q \<noteq> [] then
                 [''- Location MUST be identical to previous segment'',
                  ''- Lighting MUST match previous segment exactly'']
               else [])
            @ [''- Color palette MUST be consistent with previous segment'', []]
          else [])"

definition technical_parts :: "string list" where
  "technical_parts =
     [''Technical Requirements:'',
      ''- Exactly 8 seconds duration'',
      ''- Smooth, professional quality'',
      ''- No camera shake or jitter'',
      ''- Clear, in-focus subjects'',
      ''- Professional production value'']"

definition consistency_line :: "string \<Rightarrow> string" where
  "consistency_line mode =
     (if mode = ''strict'' then
        ''- STRICT consistency: no variations from established baseline''
      else if mode = ''balanced'' then
        ''- Balanced: maintain core consistency while allowing natural variation''
      else ''- Creative: preserve key elements but allow creative expression'')"

definition negative_parts :: "SOPSegment \<Rightarrow> string list" where
  "negative_parts seg =
     [''DO NOT INCLUDE:'',
      ''- Unrelated objects or people'',
      ''- Sudden lighting changes'',
      ''- Jump cuts or abrupt transitions'',
      ''- Inconsistent styles or aesthetics'']
     @ (if segment_number seg > 1 then
          [''- ANY changes to presenter appearance'',
           ''- ANY changes to location or background'']
        else [])"

text \<open>The sections before the consistency-mode line, and those after it.\<close>

definition parts_before_mode ::
  "SOPSegment \<Rightarrow> SOPQuestionnaire \<Rightarrow> SOPSegment option \<Rightarrow> string list" where
  "parts_before_mode seg q previous_segment =
     scene_parts seg @ presenter_parts q @ location_parts seg q @ style_parts q
     @ color_parts q @ overlay_parts seg q @ props_parts seg
     @ continuity_parts seg q previous_segment @ technical_parts"

definition parts_after_mode :: "SOPSegment \<Rightarrow> string list" where
  "parts_after_mode seg = [] # negative_parts seg"

definition prompt_parts ::
  "SOPSegment \<Rightarrow> SOPQuestionnaire \<Rightarrow> SOPSegment option \<Rightarrow> string list" where
  "prompt_parts seg q previous_segment =
     parts_before_mode seg q previous_segment
     @ [consistency_line (consistency_mode q)]
     @ parts_after_mode seg"

definition translate_segment ::
  "SOPSegment \<Rightarrow> SOPQuestionnaire \<Rightarrow> SOPSegment option \<Rightarrow> string" where
  "translate_segment seg q previous_segment =
     join newline (prompt_parts seg q previous_segment)"

subsection \<open>\<open>translate_questionnaire\<close>\<close>

definition consistency_markers_of :: "SOPSegment \<Rightarrow> SOPQuestionnaire \<Rightarrow> (string \<times> json) list" where
  "consistency_markers_of seg q =
     [(''segment_number'', JInt (segment_number seg)),
      (''sequence_id'', JStr (project_title q)),
      (''consistency_mode'', JStr (consistency_mode q))]
     @ (if presenter_type q \<in> set [''person'', ''animated_character''] then
          [(''presenter_id'', JStr ''presenter_001'')]
        else [])
     @ (if primary_location q \<noteq> [] then [(''location_id'', JStr ''location_001'')] else [])"

definition request_of ::
  "SOPQuestionnaire \<Rightarrow> SOPSegment option \<Rightarrow> SOPSegment \<Rightarrow> VideoGenerationRequest" where
  "request_of q previous_segment seg =
     \<lparr>prompt = translate_segment seg q previous_segment,
      duration = Some (SOPSegment.duration seg),
      resolution = None, fps = None, aspect_ratio = None,
      consistency_markers = Some (consistency_markers_of seg q),
      scene_id = Some (project_title q @ ''_segment_'' @ str_int (segment_number seg)),
      sequence_id = Some (project_title q)\<rparr>"

text \<open>The loop over the segments; \<open>previous_segment\<close> starts as \<open>None\<close>.\<close>

fun translate_loop ::
  "SOPQuestionnaire \<Rightarrow> SOPSegment option \<Rightarrow> SOPSegment list \<Rightarrow> VideoGenerationRequest list" where
  "translate_loop q previous_segment [] = []"
| "translate_loop q previous_segment (seg # rest) =
     request_of q previous_segment seg # translate_loop q (Some seg) rest"

text \<open>An f-string prints \<open>None\<close> as the text \<open>None\<close>.\<close>

definition translate_questionnaire ::
  "SOPQuestionnaire \<Rightarrow> py_exc + VideoGenerationRequest list" where
  "translate_questionnaire q =
     (case validate q of
        (is_valid, error) \<Rightarrow>
          if \<not> is_valid then
            Inl (ValueError (''Invalid questionnaire: '' @
                   (case error of None \<Rightarrow> ''None'' | Some e \<Rightarrow> e)))
          else Inr (translate_loop q None (segments q)))"


section \<open>Example questionnaires\<close>

text \<open>
  The scenario of the specification: project "Demo", two segments, promotional style,
  a presenter of kind "person" described as "X", strict consistency.
\<close>

definition demo_segment_1 :: SOPSegment where
  "demo_segment_1 = SOPSegment_init 1 ''Intro'' ''Open the box'' ''Lift the lid'' ''Hands''"

definition demo_segment_2 :: SOPSegment where
  "demo_segment_2 = SOPSegment_init 2 ''Use'' ''Switch it on'' ''Press the button'' ''Button''"

definition demo :: SOPQuestionnaire where
  "demo = (SOPQuestionnaire_init ''Demo'' ''Show the product'' ''Customers'' PROMOTIONAL)
     \<lparr>presenter_type := ''person'', presenter_description := Some ''X'',
      segments := [demo_segment_1, demo_segment_2]\<rparr>"

text \<open>Questionnaires that fail one check each, and one with irregular segment numbers.\<close>

definition empty_questionnaire :: SOPQuestionnaire where
  "empty_questionnaire = SOPQuestionnaire_init ''Demo'' ''Show the product'' ''Customers'' PROMOTIONAL"

definition crowded_questionnaire :: SOPQuestionnaire where
  "crowded_questionnaire = empty_questionnaire\<lparr>segments := replicate 7 demo_segment_1\<rparr>"

definition untitled_questionnaire :: SOPQuestionnaire where
  "untitled_questionnaire = empty_questionnaire\<lparr>project_title := []\<rparr>"

definition gap_questionnaire :: SOPQuestionnaire where
  "gap_questionnaire = empty_questionnaire\<lparr>segments := [demo_segment_1, demo_segment_2\<lparr>description := []\<rparr>]\<rparr>"

definition solo_questionnaire :: SOPQuestionnaire where
  "solo_questionnaire = empty_questionnaire\<lparr>segments := [demo_segment_2\<lparr>segment_number := 7\<rparr>]\<rparr>"

definition odd_numbers_questionnaire :: SOPQuestionnaire where
  "odd_numbers_questionnaire = empty_questionnaire\<lparr>segments := renumber [3, 3, - 7] [demo_segment_1, demo_segment_2, demo_segment_1]\<rparr>"


section \<open>Python operations on untyped values\<close>

text \<open>
  The operations the client applies to a parsed JSON body, each with the exception it
  raises on a value of the wrong kind. The messages are those of CPython 3.12; no
  property below depends on their wording.
\<close>

definition quoted :: "string \<Rightarrow> string" where
  "quoted s = [CHR 0x27] @ s @ [CHR 0x27]"

fun type_name :: "json \<Rightarrow> string" where
  "type_name JNull = ''NoneType''"
| "type_name (JBool b) = ''bool''"
| "type_name (JInt n) = ''int''"
| "type_name (JStr s) = ''str''"
| "type_name (JArr xs) = ''list''"
| "type_name (JObj kvs) = ''dict''"

text \<open>Truthiness of a value, as \<open>if v:\<close> tests it.\<close>

fun truthy_json :: "json \<Rightarrow> bool" where
  "truthy_json JNull = False"
| "truthy_json (JBool b) = b"
| "truthy_json (JInt n) = (n \<noteq> 0)"
| "truthy_json (JStr s) = (s \<noteq> [])"
| "truthy_json (JArr xs) = (xs \<noteq> [])"
| "truthy_json (JObj kvs) = (kvs \<noteq> [])"

text \<open>\<open>v.get(key, default)\<close>: only a \<open>dict\<close> has the method.\<close>

fun py_get :: "json \<Rightarrow> string \<Rightarrow> json \<Rightarrow> py_exc + json" where
  "py_get (JObj kvs) key dflt = Inr (case map_of kvs key of None \<Rightarrow> dflt | Some v \<Rightarrow> v)"
| "py_get v key dflt =
     Inl (AttributeError (quoted (type_name v) @ '' object has no attribute '' @ quoted ''get''))"

text \<open>\<open>key in v\<close> for a string \<open>key\<close>.\<close>

fun py_contains :: "string \<Rightarrow> json \<Rightarrow> py_exc + bool" where
  "py_contains key (JObj kvs) = Inr (key \<in> set (map fst kvs))"
| "py_contains key (JArr xs) = Inr (JStr key \<in> set xs)"
| "py_contains key (JStr s) = Inr (sublist key s)"
| "py_contains key v =
     Inl (TypeError (''argument of type '' @ quoted (type_name v) @ '' is not iterable''))"

text \<open>\<open>v[key]\<close> for a string \<open>key\<close>.\<close>

fun py_getitem :: "json \<Rightarrow> string \<Rightarrow> py_exc + json" where
  "py_getitem (JObj kvs) key =
     (case map_of kvs key of None \<Rightarrow> Inl (KeyError key) | Some v \<Rightarrow> Inr v)"
| "py_getitem (JArr xs) key = Inl (TypeError ''list indices must be integers or slices, not str'')"
| "py_getitem (JStr s) key = Inl (TypeError (''string indices must be integers, not '' @ quoted ''str''))"
| "py_getitem v key = Inl (TypeError (quoted (type_name v) @ '' object is not subscriptable''))"

text \<open>Sequencing of steps that may raise: the first exception ends the block.\<close>

definition and_then :: "'e + 'a \<Rightarrow> ('a \<Rightarrow> 'e + 'b) \<Rightarrow> 'e + 'b" where
  "and_then m f = (case m of Inl e \<Rightarrow> Inl e | Inr x \<Rightarrow> f x)"

text \<open>\<open>x or default\<close> for an optional integer and for an optional string.\<close>

definition or_int :: "int option \<Rightarrow> int \<Rightarrow> int" where
  "or_int x d = (case x of None \<Rightarrow> d | Some n \<Rightarrow> if n = 0 then d else n)"

definition or_str :: "string option \<Rightarrow> string \<Rightarrow> string" where
  "or_str x d = (case x of None \<Rightarrow> d | Some s \<Rightarrow> if s = [] then d else s)"

text \<open>\<open>os.path.join(a, b)\<close> on POSIX.\<close>

definition os_path_join :: "string \<Rightarrow> string \<Rightarrow> string" where
  "os_path_join a b =
     (if b \<noteq> [] \<and> hd b = CHR ''/'' then b
      else if a = [] \<or> last a = CHR ''/'' then a @ b
      else a @ ''/'' @ b)"


section \<open>The generation client (veo3\_client.py)\<close>

text \<open>The fields of \<open>VEO3Config\<close> that the client reads.\<close>

record VEO3Config =
  api_key :: string
  model :: string
  api_endpoint :: string
  default_duration :: int
  resolution :: string
  fps :: int
  aspect_ratio :: string
  output_dir :: string

text \<open>
  \<open>video_url\<close>, \<open>metadata\<close> and \<open>error\<close> hold what the service sent, unchecked, so they are
  \<open>json\<close>, with \<open>JNull\<close> for \<open>None\<close>.
\<close>

record VideoGenerationResponse =
  success :: bool
  video_path :: "string option"
  video_url :: json
  metadata :: json
  error :: json
  retry_count :: int

definition VideoGenerationResponse_init :: "bool \<Rightarrow> VideoGenerationResponse" where
  "VideoGenerationResponse_init s =
     \<lparr>success = s, video_path = None, video_url = JNull, metadata = JNull, error = JNull,
      retry_count = 0\<rparr>"

definition failed_response :: "json \<Rightarrow> VideoGenerationResponse" where
  "failed_response e = (VideoGenerationResponse_init False)\<lparr>error := e\<rparr>"

definition success_response :: "string \<Rightarrow> json \<Rightarrow> json \<Rightarrow> VideoGenerationResponse" where
  "success_response path url md =
     (VideoGenerationResponse_init True)\<lparr>video_path := Some path, video_url := url, metadata := md\<rparr>"

text \<open>
  The world outside the program, as the answers it gives:
  \<^item> \<open>post_json url payload\<close>: \<open>requests.post\<close>, \<open>raise_for_status\<close> and \<open>response.json()\<close>
    together, the exception raised or the parsed body;
  \<^item> \<open>get_json operation_id i\<close>: the same for the \<open>i\<close>-th status request (from 0) of an
    operation, a GET of the endpoint followed by \<open>/operations/\<close> and the operation id;
  \<^item> \<open>fetch_file video_url output_path\<close>: the streamed download and the writing of the
    file, the exception raised or \<open>None\<close>;
  \<^item> \<open>now\<close>: \<open>int(time.time())\<close> when the file name is formed.
  Only exceptions deriving from \<open>Exception\<close> are modelled.
\<close>

record world =
  post_json :: "string \<Rightarrow> json \<Rightarrow> py_exc + json"
  get_json :: "json \<Rightarrow> nat \<Rightarrow> py_exc + json"
  fetch_file :: "json \<Rightarrow> string \<Rightarrow> py_exc option"
  now :: int

subsection \<open>\<open>_download_video\<close>\<close>

text \<open>The handler logs and re-raises: the exception reaches the caller.\<close>

definition output_path :: "world \<Rightarrow> VEO3Config \<Rightarrow> string option \<Rightarrow> string" where
  "output_path w c sid =
     os_path_join (output_dir c) (or_str sid ''video'' @ ''_'' @ str_int (now w) @ ''.mp4'')"

definition download_video :: "world \<Rightarrow> VEO3Config \<Rightarrow> json \<Rightarrow> string option \<Rightarrow> py_exc + string" where
  "download_video w c url sid =
     (case fetch_file w url (output_path w c sid) of
        Some e \<Rightarrow> Inl e
      | None \<Rightarrow> Inr (output_path w c sid))"

subsection \<open>\<open>_poll_generation_status\<close>\<close>

definition max_polls :: nat where
  "max_polls = 60"

text \<open>
  The body of the \<open>try\<close> of one round: \<open>Some r\<close> when it returns \<open>r\<close>, \<open>None\<close> when it falls
  through to the sleep and the next round.
\<close>

definition poll_try ::
  "world \<Rightarrow> VEO3Config \<Rightarrow> json \<Rightarrow> VideoGenerationRequest \<Rightarrow> nat
     \<Rightarrow> py_exc + VideoGenerationResponse option" where
  "poll_try w c operation_id request i =
     and_then (get_json w operation_id i) (\<lambda>result.
     and_then (py_get result ''done'' JNull) (\<lambda>done.
       if truthy_json done then
         and_then (py_contains ''error'' result) (\<lambda>has_error.
           if has_error then
             and_then (py_getitem result ''error'') (\<lambda>err.
             and_then (py_get err ''message'' (JStr ''Unknown error'')) (\<lambda>msg.
               Inr (Some (failed_response msg))))
           else
             and_then (py_get result ''response'' (JObj [])) (\<lambda>resp.
             and_then (py_get resp ''videoUrl'' JNull) (\<lambda>url.
               if truthy_json url then
                 and_then (download_video w c url (scene_id request)) (\<lambda>path.
                 and_then (py_get result ''response'' (JObj [])) (\<lambda>resp'.
                 and_then (py_get resp' ''metadata'' (JObj [])) (\<lambda>md.
                   Inr (Some (success_response path url md)))))
               else Inr None)))
       else Inr None))"

text \<open>One round with its handler: any exception ends the polling with a failed response.\<close>

definition poll_round ::
  "world \<Rightarrow> VEO3Config \<Rightarrow> json \<Rightarrow> VideoGenerationRequest \<Rightarrow> nat
     \<Rightarrow> VideoGenerationResponse option" where
  "poll_round w c operation_id request i =
     (case poll_try w c operation_id request i of
        Inl e \<Rightarrow> Some (failed_response (JStr (''Polling failed: '' @ exc_text e)))
      | Inr r \<Rightarrow> r)"

text \<open>
  The loop \<open>for i in range(max_polls)\<close>, from round \<open>i\<close> with \<open>n\<close> rounds left. The result
  is the response with the number of status requests made.
\<close>

fun poll_loop ::
  "world \<Rightarrow> VEO3Config \<Rightarrow> json \<Rightarrow> VideoGenerationRequest \<Rightarrow> nat \<Rightarrow> nat
     \<Rightarrow> VideoGenerationResponse \<times> nat" where
  "poll_loop w c operation_id request i 0 = (failed_response (JStr ''Generation timeout''), i)"
| "poll_loop w c operation_id request i (Suc n) =
     (case poll_round w c operation_id request i of
        Some r \<Rightarrow> (r, Suc i)
      | None \<Rightarrow> poll_loop w c operation_id request (Suc i) n)"

definition poll_generation_status ::
  "world \<Rightarrow> VEO3Config \<Rightarrow> json \<Rightarrow> VideoGenerationRequest \<Rightarrow> py_exc + VideoGenerationResponse" where
  "poll_generation_status w c operation_id request =
     Inr (fst (poll_loop w c operation_id request 0 max_polls))"

definition poll_attempts ::
  "world \<Rightarrow> VEO3Config \<Rightarrow> json \<Rightarrow> VideoGenerationRequest \<Rightarrow> nat" where
  "poll_attempts w c operation_id request = snd (poll_loop w c operation_id request 0 max_polls)"

subsection \<open>\<open>generate_video\<close>\<close>

definition api_url :: "VEO3Config \<Rightarrow> string" where
  "api_url c = api_endpoint c @ ''/'' @ model c @ '':generateVideo''"

definition payload :: "VEO3Config \<Rightarrow> VideoGenerationRequest \<Rightarrow> json" where
  "payload c request =
     JObj ([(''prompt'', JStr (prompt request)),
            (''parameters'',
               JObj [(''duration'', JInt (or_int (VideoGenerationRequest.duration request) (default_duration c))),
                     (''resolution'', JStr (or_str (VideoGenerationRequest.resolution request) (resolution c))),
                     (''fps'', JInt (or_int (VideoGenerationRequest.fps request) (fps c))),
                     (''aspect_ratio'', JStr (or_str (VideoGenerationRequest.aspect_ratio request) (aspect_ratio c)))])]
           @ (case consistency_markers request of
                None \<Rightarrow> []
              | Some m \<Rightarrow> if m = [] then [] else [(''consistency_markers'', JObj m)]))"

text \<open>The body of the \<open>try\<close>.\<close>

definition generate_video_try ::
  "world \<Rightarrow> VEO3Config \<Rightarrow> VideoGenerationRequest \<Rightarrow> py_exc + VideoGenerationResponse" where
  "generate_video_try w c request =
     and_then (post_json w (api_url c) (payload c request)) (\<lambda>result.
     and_then (py_contains ''operationId'' result) (\<lambda>has_operation.
       if has_operation then
         and_then (py_getitem result ''operationId'') (\<lambda>operation_id.
           poll_generation_status w c operation_id request)
       else
         and_then (py_contains ''videoUrl'' result) (\<lambda>has_url.
           if has_url then
             and_then (py_getitem result ''videoUrl'') (\<lambda>url.
             and_then (download_video w c url (scene_id request)) (\<lambda>path.
             and_then (py_getitem result ''videoUrl'') (\<lambda>url'.
             and_then (py_get result ''metadata'' (JObj [])) (\<lambda>md.
               Inr (success_response path url' md)))))
           else Inr (failed_response (JStr ''Unexpected API response format'')))))"

text \<open>
  The two handlers, for \<open>RequestException\<close> and for any other \<open>Exception\<close>, return the same
  response. The result is \<open>Inl e\<close> when \<open>generate_video\<close> raises \<open>e\<close> to its caller.
\<close>

definition generate_video ::
  "world \<Rightarrow> VEO3Config \<Rightarrow> VideoGenerationRequest \<Rightarrow> py_exc + VideoGenerationResponse" where
  "generate_video w c request =
     (case generate_video_try w c request of
        Inl (RequestException m) \<Rightarrow> Inr (failed_response (JStr (exc_text (RequestException m))))
      | Inl e \<Rightarrow> Inr (failed_response (JStr (exc_text e)))
      | Inr r \<Rightarrow> Inr r)"

subsection \<open>\<open>validate_prompt\<close>\<close>

text \<open>The characters below 256 that \<open>str.strip()\<close> removes.\<close>

definition py_isspace :: "char \<Rightarrow> bool" where
  "py_isspace ch = (of_char ch \<in> set [9, 10, 11, 12, 13, 28, 29, 30, 31, 32, 133, 160 :: nat])"

definition strip :: "string \<Rightarrow> string" where
  "strip s = rev (dropWhile py_isspace (rev (dropWhile py_isspace s)))"

definition validate_prompt :: "string \<Rightarrow> bool \<times> string option" where
  "validate_prompt p =
     (if p = [] \<or> length (strip p) = 0 then (False, Some ''Prompt cannot be empty'')
      else if length p < 10 then (False, Some ''Prompt too short (minimum 10 characters)'')
      else if length p > 5000 then (False, Some ''Prompt too long (maximum 5000 characters)'')
      else (True, None))"


section \<open>Status responses and example worlds\<close>

text \<open>The shapes of a status response that the specification names.\<close>

definition done_flag :: "(string \<times> json) list \<Rightarrow> bool" where
  "done_flag kvs = truthy_json (case map_of kvs ''done'' of None \<Rightarrow> JNull | Some v \<Rightarrow> v)"

definition not_done :: "py_exc + json \<Rightarrow> bool" where
  "not_done a = (case a of Inr (JObj kvs) \<Rightarrow> \<not> done_flag kvs | _ \<Rightarrow> False)"

definition done_with_url :: "json \<Rightarrow> py_exc + json \<Rightarrow> bool" where
  "done_with_url url a =
     (case a of
        Inr (JObj kvs) \<Rightarrow>
          done_flag kvs \<and> ''error'' \<notin> set (map fst kvs) \<and> truthy_json url \<and>
          (case map_of kvs ''response'' of
             Some (JObj rs) \<Rightarrow> map_of rs ''videoUrl'' = Some url
           | _ \<Rightarrow> False)
      | _ \<Rightarrow> False)"

definition done_with_error :: "json \<Rightarrow> py_exc + json \<Rightarrow> bool" where
  "done_with_error err a =
     (case a of
        Inr (JObj kvs) \<Rightarrow> done_flag kvs \<and> map_of kvs ''error'' = Some err
      | _ \<Rightarrow> False)"

definition demo_config :: VEO3Config where
  "demo_config =
     \<lparr>api_key = ''key'', model = ''veo-3'',
      api_endpoint = ''https://generativelanguage.googleapis.com/v1beta/models'',
      default_duration = 5, resolution = ''1080p'', fps = 24, aspect_ratio = ''16:9'',
      output_dir = ''./output/videos''\<rparr>"

definition demo_request :: VideoGenerationRequest where
  "demo_request = request_of demo None demo_segment_1"

definition pending_body :: json where
  "pending_body = JObj [(''done'', JBool False)]"

definition finished_body :: json where
  "finished_body =
     JObj [(''done'', JBool True), (''response'', JObj [(''videoUrl'', JStr ''http://x/v.mp4'')])]"

definition error_body :: json where
  "error_body = JObj [(''done'', JBool True), (''error'', JObj [(''message'', JStr ''quota exceeded'')])]"

text \<open>
  The service answers the POST with an operation id and every status request with the
  given body; the download raises the given exception, if any.
\<close>

definition polling_world :: "json \<Rightarrow> py_exc option \<Rightarrow> world" where
  "polling_world body failure =
     \<lparr>post_json = (\<lambda>url p. Inr (JObj [(''operationId'', JStr ''op1'')])),
      get_json = (\<lambda>operation_id i. Inr body),
      fetch_file = (\<lambda>url path. failure),
      now = 1700000000\<rparr>"

text \<open>The service answers the POST with a video URL; the download fails.\<close>

definition sync_world :: "py_exc option \<Rightarrow> world" where
  "sync_world failure =
     \<lparr>post_json = (\<lambda>url p. Inr (JObj [(''videoUrl'', JStr ''http://x/v.mp4'')])),
      get_json = (\<lambda>operation_id i. Inr pending_body),
      fetch_file = (\<lambda>url path. failure),
      now = 1700000000\<rparr>"

text \<open>The POST itself fails.\<close>

definition offline_world :: world where
  "offline_world =
     \<lparr>post_json = (\<lambda>url p. Inl (RequestException ''connection refused'')),
      get_json = (\<lambda>operation_id i. Inl (RequestException ''connection refused'')),
      fetch_file = (\<lambda>url path. Some (RequestException ''connection refused'')),
      now = 1700000000\<rparr>"


section \<open>Serialization (sop\_questionnaire.py)\<close>

definition VideoStyle_value :: "VideoStyle \<Rightarrow> string" where
  "VideoStyle_value v =
     (case v of PROFESSIONAL \<Rightarrow> ''professional'' | CASUAL \<Rightarrow> ''casual''
      | EDUCATIONAL \<Rightarrow> ''educational'' | PROMOTIONAL \<Rightarrow> ''promotional'')"

definition PlatformTarget_value :: "PlatformTarget \<Rightarrow> string" where
  "PlatformTarget_value p =
     (case p of INSTAGRAM \<Rightarrow> ''instagram'' | TIKTOK \<Rightarrow> ''tiktok''
      | YOUTUBE_SHORTS \<Rightarrow> ''youtube_shorts'' | FACEBOOK \<Rightarrow> ''facebook''
      | LINKEDIN \<Rightarrow> ''linkedin'' | TWITTER \<Rightarrow> ''twitter'')"

definition VideoStyle_members :: "VideoStyle list" where
  "VideoStyle_members = [PROFESSIONAL, CASUAL, EDUCATIONAL, PROMOTIONAL]"

definition PlatformTarget_members :: "PlatformTarget list" where
  "PlatformTarget_members = [INSTAGRAM, TIKTOK, YOUTUBE_SHORTS, FACEBOOK, LINKEDIN, TWITTER]"

subsection \<open>\<open>to_dict\<close>\<close>

definition opt_json :: "string option \<Rightarrow> json" where
  "opt_json v = (case v of None \<Rightarrow> JNull | Some s \<Rightarrow> JStr s)"

definition segment_to_dict :: "SOPSegment \<Rightarrow> json" where
  "segment_to_dict s =
     JObj [(''segment_number'', JInt (segment_number s)),
           (''title'', JStr (title s)),
           (''description'', JStr (description s)),
           (''key_action'', JStr (key_action s)),
           (''visual_focus'', JStr (visual_focus s)),
           (''duration'', JInt (SOPSegment.duration s)),
           (''text_overlay'', opt_json (text_overlay s)),
           (''voiceover_script'', opt_json (voiceover_script s)),
           (''props_needed'', JArr (map JStr (props_needed s))),
           (''location'', opt_json (location s))]"

definition to_dict :: "SOPQuestionnaire \<Rightarrow> json" where
  "to_dict q =
     JObj [(''project_title'', JStr (project_title q)),
           (''sop_purpose'', JStr (sop_purpose q)),
           (''target_audience'', JStr (target_audience q)),
           (''video_style'', JStr (VideoStyle_value (video_style q))),
           (''brand_colors'', JArr (map JStr (brand_colors q))),
           (''brand_fonts'', JArr (map JStr (brand_fonts q))),
           (''target_platforms'', JArr (map (JStr \<circ> PlatformTarget_value) (target_platforms q))),
           (''presenter_type'', JStr (presenter_type q)),
           (''presenter_description'', opt_json (presenter_description q)),
           (''presenter_clothing'', opt_json (presenter_clothing q)),
           (''primary_location'', JStr (primary_location q)),
           (''location_description'', JStr (location_description q)),
           (''lighting_preference'', JStr (lighting_preference q)),
           (''segments'', JArr (map segment_to_dict (segments q))),
           (''company_name'', opt_json (company_name q)),
           (''logo_placement'', opt_json (logo_placement q)),
           (''intro_outro_needed'', JBool (intro_outro_needed q)),
           (''music_style'', opt_json (music_style q)),
           (''voiceover_needed'', JBool (voiceover_needed q)),
           (''voiceover_language'', JStr (voiceover_language q)),
           (''consistency_mode'', JStr (consistency_mode q))]"

subsection \<open>The parsing of \<open>from_json\<close>\<close>

text \<open>
  \<open>from_json\<close> loads the record from the file and passes its values to the constructor;
  \<open>from_dict\<close> is that second part. The source stores each value as it is. The typed
  model holds a value only when it has the declared type of its field; any other value
  is reported as \<open>Ill_typed\<close> with the name of the field, which is not an exception of the
  source but the border of the model. An exception of the source is \<open>Raised\<close>.
\<close>

datatype parse_error = Raised py_exc | Ill_typed string

definition required :: "json \<Rightarrow> string \<Rightarrow> parse_error + json" where
  "required data key = (case py_getitem data key of Inl e \<Rightarrow> Inl (Raised e) | Inr v \<Rightarrow> Inr v)"

definition optional :: "json \<Rightarrow> string \<Rightarrow> json \<Rightarrow> parse_error + json" where
  "optional data key dflt =
     (case py_get data key dflt of Inl e \<Rightarrow> Inl (Raised e) | Inr v \<Rightarrow> Inr v)"

definition as_str :: "string \<Rightarrow> json \<Rightarrow> parse_error + string" where
  "as_str field v = (case v of JStr s \<Rightarrow> Inr s | _ \<Rightarrow> Inl (Ill_typed field))"

definition as_opt_str :: "string \<Rightarrow> json \<Rightarrow> parse_error + string option" where
  "as_opt_str field v =
     (case v of JNull \<Rightarrow> Inr None | JStr s \<Rightarrow> Inr (Some s) | _ \<Rightarrow> Inl (Ill_typed field))"

definition as_int :: "string \<Rightarrow> json \<Rightarrow> parse_error + int" where
  "as_int field v = (case v of JInt n \<Rightarrow> Inr n | _ \<Rightarrow> Inl (Ill_typed field))"

definition as_bool :: "string \<Rightarrow> json \<Rightarrow> parse_error + bool" where
  "as_bool field v = (case v of JBool b \<Rightarrow> Inr b | _ \<Rightarrow> Inl (Ill_typed field))"

definition as_list :: "string \<Rightarrow> json \<Rightarrow> parse_error + json list" where
  "as_list field v = (case v of JArr xs \<Rightarrow> Inr xs | _ \<Rightarrow> Inl (Ill_typed field))"

text \<open>A list comprehension: the elements in order, ended by the first exception.\<close>

fun traverse :: "('a \<Rightarrow> 'e + 'b) \<Rightarrow> 'a list \<Rightarrow> 'e + 'b list" where
  "traverse f [] = Inr []"
| "traverse f (x # xs) = and_then (f x) (\<lambda>y. and_then (traverse f xs) (\<lambda>ys. Inr (y # ys)))"

definition as_str_list :: "string \<Rightarrow> json \<Rightarrow> parse_error + string list" where
  "as_str_list field v = and_then (as_list field v) (traverse (as_str field))"

text \<open>
  \<open>VideoStyle(value)\<close> and \<open>PlatformTarget(value)\<close>: the member whose value is exactly the
  given string, \<open>ValueError\<close> when there is none. The message prints the \<open>repr\<close> of the
  string, here for a string that needs no escape.
\<close>

definition VideoStyle_of :: "json \<Rightarrow> parse_error + VideoStyle" where
  "VideoStyle_of v =
     (case v of
        JStr s \<Rightarrow>
          (case find (\<lambda>m. VideoStyle_value m = s) VideoStyle_members of
             Some m \<Rightarrow> Inr m
           | None \<Rightarrow> Inl (Raised (ValueError (quoted s @ '' is not a valid VideoStyle''))))
      | _ \<Rightarrow> Inl (Ill_typed ''video_style''))"

definition PlatformTarget_of :: "json \<Rightarrow> parse_error + PlatformTarget" where
  "PlatformTarget_of v =
     (case v of
        JStr s \<Rightarrow>
          (case find (\<lambda>m. PlatformTarget_value m = s) PlatformTarget_members of
             Some m \<Rightarrow> Inr m
           | None \<Rightarrow> Inl (Raised (ValueError (quoted s @ '' is not a valid PlatformTarget''))))
      | _ \<Rightarrow> Inl (Ill_typed ''target_platforms''))"

definition segment_from_dict :: "json \<Rightarrow> parse_error + SOPSegment" where
  "segment_from_dict s =
     and_then (and_then (required s ''segment_number'') (as_int ''segment_number'')) (\<lambda>n.
     and_then (and_then (required s ''title'') (as_str ''title'')) (\<lambda>t.
     and_then (and_then (required s ''description'') (as_str ''description'')) (\<lambda>d.
     and_then (and_then (required s ''key_action'') (as_str ''key_action'')) (\<lambda>k.
     and_then (and_then (required s ''visual_focus'') (as_str ''visual_focus'')) (\<lambda>v.
     and_then (and_then (optional s ''duration'' (JInt 8)) (as_int ''duration'')) (\<lambda>du.
     and_then (and_then (optional s ''text_overlay'' JNull) (as_opt_str ''text_overlay'')) (\<lambda>ov.
     and_then (and_then (optional s ''voiceover_script'' JNull) (as_opt_str ''voiceover_script'')) (\<lambda>vo.
     and_then (and_then (optional s ''props_needed'' (JArr [])) (as_str_list ''props_needed'')) (\<lambda>pr.
     and_then (and_then (optional s ''location'' JNull) (as_opt_str ''location'')) (\<lambda>lo.
       Inr \<lparr>segment_number = n, title = t, description = d, key_action = k,
            visual_focus = v, SOPSegment.duration = du, text_overlay = ov,
            voiceover_script = vo, props_needed = pr, location = lo\<rparr>))))))))))"

definition from_dict :: "json \<Rightarrow> parse_error + SOPQuestionnaire" where
  "from_dict data =
     and_then (and_then (required data ''project_title'') (as_str ''project_title'')) (\<lambda>f1.
     and_then (and_then (required data ''sop_purpose'') (as_str ''sop_purpose'')) (\<lambda>f2.
     and_then (and_then (required data ''target_audience'') (as_str ''target_audience'')) (\<lambda>f3.
     and_then (and_then (required data ''video_style'') VideoStyle_of) (\<lambda>f4.
     and_then (and_then (optional data ''brand_colors'' (JArr [])) (as_str_list ''brand_colors'')) (\<lambda>f5.
     and_then (and_then (optional data ''brand_fonts'' (JArr [])) (as_str_list ''brand_fonts'')) (\<lambda>f6.
     and_then (and_then (and_then (optional data ''target_platforms'' (JArr []))
                 (as_list ''target_platforms'')) (traverse PlatformTarget_of)) (\<lambda>f7.
     and_then (and_then (optional data ''presenter_type'' (JStr ''none'')) (as_str ''presenter_type'')) (\<lambda>f8.
     and_then (and_then (optional data ''presenter_description'' JNull)
                 (as_opt_str ''presenter_description'')) (\<lambda>f9.
     and_then (and_then (optional data ''presenter_clothing'' JNull)
                 (as_opt_str ''presenter_clothing'')) (\<lambda>f10.
     and_then (and_then (optional data ''primary_location'' (JStr []))
                 (as_str ''primary_location'')) (\<lambda>f11.
     and_then (and_then (optional data ''location_description'' (JStr []))
                 (as_str ''location_description'')) (\<lambda>f12.
     and_then (and_then (optional data ''lighting_preference'' (JStr ''bright_professional''))
                 (as_str ''lighting_preference'')) (\<lambda>f13.
     and_then (and_then (and_then (optional data ''segments'' (JArr [])) (as_list ''segments''))
                 (traverse segment_from_dict)) (\<lambda>f14.
     and_then (and_then (optional data ''company_name'' JNull) (as_opt_str ''company_name'')) (\<lambda>f15.
     and_then (and_then (optional data ''logo_placement'' JNull) (as_opt_str ''logo_placement'')) (\<lambda>f16.
     and_then (and_then (optional data ''intro_outro_needed'' (JBool True))
                 (as_bool ''intro_outro_needed'')) (\<lambda>f17.
     and_then (and_then (optional data ''music_style'' JNull) (as_opt_str ''music_style'')) (\<lambda>f18.
     and_then (and_then (optional data ''voiceover_needed'' (JBool False))
                 (as_bool ''voiceover_needed'')) (\<lambda>f19.
     and_then (and_then (optional data ''voiceover_language'' (JStr ''english''))
                 (as_str ''voiceover_language'')) (\<lambda>f20.
     and_then (and_then (optional data ''consistency_mode'' (JStr ''strict''))
                 (as_str ''consistency_mode'')) (\<lambda>f21.
       Inr \<lparr>project_title = f1, sop_purpose = f2, target_audience = f3, video_style = f4,
            brand_colors = f5, brand_fonts = f6, target_platforms = f7, presenter_type = f8,
            presenter_description = f9, presenter_clothing = f10, primary_location = f11,
            location_description = f12, lighting_preference = f13, segments = f14,
            company_name = f15, logo_placement = f16, intro_outro_needed = f17,
            music_style = f18, voiceover_needed = f19, voiceover_language = f20,
            consistency_mode = f21\<rparr>)))))))))))))))))))))"

text \<open>\<open>data[key] = v\<close> on a record.\<close>

fun dict_set :: "json \<Rightarrow> string \<Rightarrow> json \<Rightarrow> json" where
  "dict_set (JObj kvs) key v = JObj (AList.update key v kvs)"
| "dict_set j key v = j"

text \<open>A questionnaire with every optional field filled, two of them with empty lists.\<close>

definition full_segment :: SOPSegment where
  "full_segment =
     \<lparr>segment_number = 1, title = ''Intro'', description = ''Open the box'',
      key_action = ''Lift the lid'', visual_focus = ''Hands'', SOPSegment.duration = 6,
      text_overlay = Some ''Unboxing'', voiceover_script = Some ''Here it is'',
      props_needed = [], location = Some ''desk''\<rparr>"

definition full_questionnaire :: SOPQuestionnaire where
  "full_questionnaire =
     \<lparr>project_title = ''Demo'', sop_purpose = ''Show the product'',
      target_audience = ''Customers'', video_style = CASUAL, brand_colors = [],
      brand_fonts = [''Inter''], target_platforms = [TIKTOK, YOUTUBE_SHORTS],
      presenter_type = ''person'', presenter_description = Some ''X'',
      presenter_clothing = Some ''blue shirt'', primary_location = ''office'',
      location_description = ''bright room'', lighting_preference = ''soft'',
      segments = [full_segment], company_name = Some ''Acme'',
      logo_placement = Some ''top right'', intro_outro_needed = False,
      music_style = Some ''calm'', voiceover_needed = True, voiceover_language = ''french'',
      consistency_mode = ''balanced''\<rparr>"


section \<open>Properties of \<open>validate\<close>\<close>

lemma validate_segments_find:
  "validate_segments ss =
     (case find fst (concat (map segment_checks ss)) of
        None \<Rightarrow> (True, None)
      | Some c \<Rightarrow> (False, Some (snd c)))"
  by (induction ss) (simp_all add: segment_checks_def)

lemma validate_segments_complete:
  "list_all complete_segment ss \<Longrightarrow> validate_segments ss = (True, None)"
  by (induction ss) (simp_all add: complete_segment_def)

lemma validate_segments_first_incomplete:
  "list_all complete_segment pre \<Longrightarrow> \<not> complete_segment s \<Longrightarrow>
   validate_segments (pre @ s # post) = (False, Some (segment_reason s))"
  by (induction pre) (auto simp: complete_segment_def segment_reason_def)

lemma validate_eq_first_failure: "validate q = first_failure q"
  by (simp add: validate_def first_failure_def ordered_checks_def validate_segments_find)

lemma validate_accepts_iff:
  "fst (validate q) \<longleftrightarrow>
     project_title q \<noteq> [] \<and> sop_purpose q \<noteq> [] \<and> target_audience q \<noteq> [] \<and>
     1 \<le> length (segments q) \<and> length (segments q) \<le> 6 \<and>
     list_all complete_segment (segments q)"
proof -
  have seg: "fst (validate_segments ss) = list_all complete_segment ss" for ss
    by (induction ss) (simp_all add: complete_segment_def)
  show ?thesis
    by (auto simp: validate_def seg Suc_le_eq)
qed

lemma validate_shape: "validate q = (True, None) \<or> (\<exists>r. validate q = (False, Some r))"
proof -
  have "validate_segments ss = (True, None) \<or> (\<exists>r. validate_segments ss = (False, Some r))" for ss
    by (induction ss) simp_all
  then show ?thesis
    by (simp add: validate_def)
qed


lemma validate_segments_renumber:
  "length ns = length ss \<Longrightarrow> fst (validate_segments (renumber ns ss)) = fst (validate_segments ss)"
proof (induction ss arbitrary: ns)
  case Nil
  then show ?case by (simp add: renumber_def)
next
  case (Cons s ss)
  then obtain n ns' where "ns = n # ns'" "length ns' = length ss"
    by (cases ns) auto
  with Cons.IH[of ns'] show ?case
    by (simp add: renumber_def)
qed

text \<open>
  C3. \<open>validate\<close> returns either success or exactly one reason, the first failure in the
  order: project title, purpose, audience, zero segments, more than six segments, then
  segment by segment in list order title, description, key action. A segment count
  outside 1..6 is always rejected, with the count's reason once title, purpose and
  audience are present; the reason for the first incomplete segment names that segment's
  number.
\<close>

theorem validate_first_failure_in_order:
  "validate q = first_failure q \<and>
   (validate q = (True, None) \<or> (\<exists>r. validate q = (False, Some r))) \<and>
   (project_title q = [] \<longrightarrow> validate q = (False, Some ''Project title is required'')) \<and>
   (project_title q \<noteq> [] \<and> sop_purpose q = [] \<longrightarrow>
      validate q = (False, Some ''SOP purpose is required'')) \<and>
   (project_title q \<noteq> [] \<and> sop_purpose q \<noteq> [] \<and> target_audience q = [] \<longrightarrow>
      validate q = (False, Some ''Target audience is required'')) \<and>
   (length (segments q) = 0 \<or> 6 < length (segments q) \<longrightarrow> \<not> fst (validate q)) \<and>
   (project_title q \<noteq> [] \<and> sop_purpose q \<noteq> [] \<and> target_audience q \<noteq> [] \<longrightarrow>
      (length (segments q) = 0 \<longrightarrow>
         validate q = (False, Some ''At least one segment is required'')) \<and>
      (6 < length (segments q) \<longrightarrow>
         validate q = (False, Some ''Maximum 6 segments allowed (48 seconds total)'')) \<and>
      (length (segments q) \<le> 6 \<and> segments q = pre @ s # post \<and>
       list_all complete_segment pre \<and> \<not> complete_segment s \<longrightarrow>
         validate q = (False, Some (segment_reason s)) \<and>
         sublist (''Segment '' @ str_int (segment_number s) @ '' missing '') (segment_reason s)) \<and>
      (1 \<le> length (segments q) \<and> length (segments q) \<le> 6 \<and>
       list_all complete_segment (segments q) \<longrightarrow> validate q = (True, None)))"
proof -
  have reason: "sublist (''Segment '' @ str_int (segment_number s) @ '' missing '') (segment_reason s)"
  proof -
    have "\<exists>w. segment_reason s = (''Segment '' @ str_int (segment_number s) @ '' missing '') @ w"
      by (simp add: segment_reason_def)
    then show ?thesis
      by (auto simp del: append_assoc)
  qed
  have segs: "length (segments q) \<le> 6 \<Longrightarrow> segments q = pre @ s # post \<Longrightarrow>
      list_all complete_segment pre \<Longrightarrow> \<not> complete_segment s \<Longrightarrow>
      project_title q \<noteq> [] \<Longrightarrow> sop_purpose q \<noteq> [] \<Longrightarrow> target_audience q \<noteq> [] \<Longrightarrow>
      validate q = (False, Some (segment_reason s))"
    using validate_segments_first_incomplete[of pre s post] by (simp add: validate_def)
  have ok: "1 \<le> length (segments q) \<Longrightarrow> length (segments q) \<le> 6 \<Longrightarrow>
      list_all complete_segment (segments q) \<Longrightarrow>
      project_title q \<noteq> [] \<Longrightarrow> sop_purpose q \<noteq> [] \<Longrightarrow> target_audience q \<noteq> [] \<Longrightarrow>
      validate q = (True, None)"
    by (auto simp: validate_def validate_segments_complete)
  have count: "length (segments q) = 0 \<or> 6 < length (segments q) \<Longrightarrow> \<not> fst (validate q)"
    by (auto simp: validate_accepts_iff)
  have top: "(project_title q = [] \<longrightarrow> validate q = (False, Some ''Project title is required'')) \<and>
   (project_title q \<noteq> [] \<and> sop_purpose q = [] \<longrightarrow>
      validate q = (False, Some ''SOP purpose is required'')) \<and>
   (project_title q \<noteq> [] \<and> sop_purpose q \<noteq> [] \<and> target_audience q = [] \<longrightarrow>
      validate q = (False, Some ''Target audience is required'')) \<and>
   (project_title q \<noteq> [] \<and> sop_purpose q \<noteq> [] \<and> target_audience q \<noteq> [] \<longrightarrow>
      (length (segments q) = 0 \<longrightarrow>
         validate q = (False, Some ''At least one segment is required'')) \<and>
      (6 < length (segments q) \<longrightarrow>
         validate q = (False, Some ''Maximum 6 segments allowed (48 seconds total)'')))"
    by (simp add: validate_def)
  show ?thesis
    using validate_eq_first_failure[of q] validate_shape[of q] reason segs ok count top
    by blast
qed

theorem validate_first_failure_in_order_witness:
  "validate untitled_questionnaire = (False, Some ''Project title is required'') \<and>
   validate (empty_questionnaire\<lparr>sop_purpose := []\<rparr>) = (False, Some ''SOP purpose is required'') \<and>
   validate (empty_questionnaire\<lparr>target_audience := []\<rparr>) =
     (False, Some ''Target audience is required'') \<and>
   validate empty_questionnaire = (False, Some ''At least one segment is required'') \<and>
   validate crowded_questionnaire = (False, Some ''Maximum 6 segments allowed (48 seconds total)'') \<and>
   validate gap_questionnaire = (False, Some ''Segment 2 missing description'') \<and>
   validate demo = (True, None)"
proof -
  have a: "validate untitled_questionnaire = (False, Some ''Project title is required'')"
    using validate_first_failure_in_order[of untitled_questionnaire, THEN conjunct2]
    by (simp add: untitled_questionnaire_def)
  have e: "project_title empty_questionnaire \<noteq> [] \<and> sop_purpose empty_questionnaire \<noteq> [] \<and>
      target_audience empty_questionnaire \<noteq> [] \<and> segments empty_questionnaire = []"
    by (simp add: empty_questionnaire_def SOPQuestionnaire_init_def)
  have a2: "validate (empty_questionnaire\<lparr>sop_purpose := []\<rparr>) =
      (False, Some ''SOP purpose is required'')"
    using validate_first_failure_in_order[of "empty_questionnaire\<lparr>sop_purpose := []\<rparr>",
        THEN conjunct2] e
    by simp
  have a3: "validate (empty_questionnaire\<lparr>target_audience := []\<rparr>) =
      (False, Some ''Target audience is required'')"
    using validate_first_failure_in_order[of "empty_questionnaire\<lparr>target_audience := []\<rparr>",
        THEN conjunct2] e
    by simp
  have b: "validate empty_questionnaire = (False, Some ''At least one segment is required'')"
    using validate_first_failure_in_order[of empty_questionnaire, THEN conjunct2] e by simp
  have c: "validate crowded_questionnaire =
      (False, Some ''Maximum 6 segments allowed (48 seconds total)'')"
    using validate_first_failure_in_order[of crowded_questionnaire, THEN conjunct2] e
    by (simp add: crowded_questionnaire_def)
  have s1: "complete_segment demo_segment_1"
    by (simp add: complete_segment_def demo_segment_1_def SOPSegment_init_def)
  have s2: "complete_segment demo_segment_2"
    by (simp add: complete_segment_def demo_segment_2_def SOPSegment_init_def)
  have r: "segment_reason (demo_segment_2\<lparr>description := []\<rparr>) = ''Segment 2 missing description''"
    by code_simp
  have d: "validate gap_questionnaire = (False, Some ''Segment 2 missing description'')"
    using validate_first_failure_in_order[of gap_questionnaire "[demo_segment_1]"
        "demo_segment_2\<lparr>description := []\<rparr>" "[]", THEN conjunct2] e s1 r
    by (simp add: gap_questionnaire_def complete_segment_def)
  have f: "validate demo = (True, None)"
    using validate_first_failure_in_order[of demo, THEN conjunct2] s1 s2
    by (simp add: demo_def SOPQuestionnaire_init_def)
  show ?thesis
    using a a2 a3 b c d f by simp
qed

text \<open>
  C10. Whether \<open>validate\<close> accepts does not depend on the segment numbers: it accepts
  exactly when title, purpose and audience are not empty, there are 1 to 6 segments and
  each has a title, a description and a key action; writing any numbers over the
  segments' own leaves the outcome unchanged.
\<close>

theorem validate_ignores_segment_numbers:
  "(fst (validate q) \<longleftrightarrow>
      project_title q \<noteq> [] \<and> sop_purpose q \<noteq> [] \<and> target_audience q \<noteq> [] \<and>
      1 \<le> length (segments q) \<and> length (segments q) \<le> 6 \<and>
      list_all complete_segment (segments q)) \<and>
   (project_title q \<noteq> [] \<and> sop_purpose q \<noteq> [] \<and> target_audience q \<noteq> [] \<and>
    1 \<le> length (segments q) \<and> length (segments q) \<le> 6 \<and>
    list_all complete_segment (segments q) \<longrightarrow> validate q = (True, None)) \<and>
   (length ns = length (segments q) \<longrightarrow>
      fst (validate (q\<lparr>segments := renumber ns (segments q)\<rparr>)) = fst (validate q))"
proof -
  have "length ns = length (segments q) \<Longrightarrow>
      fst (validate (q\<lparr>segments := renumber ns (segments q)\<rparr>)) = fst (validate q)"
    using validate_segments_renumber[of ns "segments q"]
    by (simp add: validate_def renumber_def)
  moreover have "fst (validate q) \<Longrightarrow> validate q = (True, None)"
    using validate_shape[of q] by auto
  ultimately show ?thesis
    using validate_accepts_iff[of q] by blast
qed

theorem validate_ignores_segment_numbers_witness:
  "map segment_number (segments odd_numbers_questionnaire) = [3, 3, - 7] \<and>
   validate odd_numbers_questionnaire = (True, None) \<and>
   fst (validate (odd_numbers_questionnaire
      \<lparr>segments := renumber [1, 2, 3] (segments odd_numbers_questionnaire)\<rparr>))"
proof -
  have s: "segments odd_numbers_questionnaire =
      [demo_segment_1\<lparr>segment_number := 3\<rparr>, demo_segment_2\<lparr>segment_number := 3\<rparr>,
       demo_segment_1\<lparr>segment_number := - 7\<rparr>]"
    by (simp add: odd_numbers_questionnaire_def renumber_def)
  have c: "list_all complete_segment (segments odd_numbers_questionnaire)"
    by (simp add: s complete_segment_def demo_segment_1_def demo_segment_2_def SOPSegment_init_def)
  have t: "project_title odd_numbers_questionnaire \<noteq> [] \<and>
      sop_purpose odd_numbers_questionnaire \<noteq> [] \<and> target_audience odd_numbers_questionnaire \<noteq> []"
    by (simp add: odd_numbers_questionnaire_def empty_questionnaire_def SOPQuestionnaire_init_def)
  show ?thesis
    using validate_ignores_segment_numbers[of odd_numbers_questionnaire "[1, 2, 3]"] c t
    by (simp add: s)
qed



section \<open>Properties of the translator\<close>

subsection \<open>Joining and splitting lines\<close>

lemma join_append:
  "xs \<noteq> [] \<Longrightarrow> ys \<noteq> [] \<Longrightarrow> join sep (xs @ ys) = join sep xs @ sep @ join sep ys"
proof (induction sep xs rule: join.induct)
  case (2 sep x)
  then show ?case by (cases ys) simp_all
qed simp_all

lemma join_block:
  assumes "ys \<noteq> []"
  shows "\<exists>a b. join sep (xs @ ys @ zs) = a @ join sep ys @ b"
proof (cases "xs = []")
  case xs: True
  show ?thesis
  proof (cases "zs = []")
    case True
    with xs show ?thesis by (intro exI[of _ "[]"]) simp
  next
    case False
    with xs assms show ?thesis
      by (intro exI[of _ "[]"] exI[of _ "sep @ join sep zs"]) (simp add: join_append)
  qed
next
  case xs: False
  show ?thesis
  proof (cases "zs = []")
    case True
    with xs assms show ?thesis
      by (intro exI[of _ "join sep xs @ sep"] exI[of _ "[]"]) (simp add: join_append)
  next
    case False
    with xs assms show ?thesis
      by (intro exI[of _ "join sep xs @ sep"] exI[of _ "sep @ join sep zs"])
         (simp add: join_append)
  qed
qed

lemma sublist_join_block: "ys \<noteq> [] \<Longrightarrow> sublist (join sep ys) (join sep (xs @ ys @ zs))"
  using join_block[of ys sep xs zs] by (auto simp: sublist_def)

lemma sublist_join_line: "l \<in> set ls \<Longrightarrow> sublist l (join sep ls)"
proof -
  assume "l \<in> set ls"
  then obtain xs zs where "ls = xs @ [l] @ zs"
    by (auto dest: split_list)
  then show ?thesis
    using sublist_join_block[of "[l]" sep xs zs] by simp
qed

lemma sublist_trans_line:
  "sublist p l \<Longrightarrow> l \<in> set ls \<Longrightarrow> sublist p (join sep ls)"
  using sublist_join_line sublist_order.order_trans by blast

lemma split_newline_not_Nil: "split_newline s \<noteq> []"
  by (induction s) (auto split: list.splits)

lemma split_newline_append:
  "split_newline (a @ CHR 0x0A # b) = split_newline a @ split_newline b"
proof (induction a)
  case Nil
  show ?case by simp
next
  case (Cons c a)
  then show ?case
    using split_newline_not_Nil[of a] by (cases "split_newline a") auto
qed

lemma split_newline_single: "CHR 0x0A \<notin> set s \<Longrightarrow> split_newline s = [s]"
  by (induction s) auto

lemma differ_at_one:
  "length (X @ [a] @ Y) = length (X @ [b] @ Y) \<and>
   (\<exists>i<length (X @ [a] @ Y). (X @ [a] @ Y) ! i = a \<and> (X @ [b] @ Y) ! i = b \<and>
      (\<forall>j<length (X @ [a] @ Y). j \<noteq> i \<longrightarrow> (X @ [a] @ Y) ! j = (X @ [b] @ Y) ! j))"
  by (auto simp: nth_append intro!: exI[of _ "length X"])

lemma parts_before_mode_indep:
  "parts_before_mode seg (q\<lparr>consistency_mode := m\<rparr>) prev = parts_before_mode seg q prev"
proof -
  have "presenter_parts (q\<lparr>consistency_mode := m\<rparr>) = presenter_parts q"
    by (simp add: presenter_parts_def)
  moreover have "location_parts seg (q\<lparr>consistency_mode := m\<rparr>) = location_parts seg q"
    by (simp add: location_parts_def)
  moreover have "style_parts (q\<lparr>consistency_mode := m\<rparr>) = style_parts q"
    by (simp add: style_parts_def split: option.split)
  moreover have "color_parts (q\<lparr>consistency_mode := m\<rparr>) = color_parts q"
    by (simp add: color_parts_def)
  moreover have "overlay_parts seg (q\<lparr>consistency_mode := m\<rparr>) = overlay_parts seg q"
    by (simp add: overlay_parts_def split: option.split)
  moreover have "continuity_parts seg (q\<lparr>consistency_mode := m\<rparr>) prev
      = continuity_parts seg q prev"
    by (simp add: continuity_parts_def split: option.split)
  ultimately show ?thesis
    by (simp add: parts_before_mode_def)
qed

lemma consistency_line_no_newline: "CHR 0x0A \<notin> set (consistency_line m)"
  by (simp add: consistency_line_def)

lemma consistency_line_inj:
  "m1 \<in> {''strict'', ''balanced'', ''creative''} \<Longrightarrow> m2 \<in> {''strict'', ''balanced'', ''creative''} \<Longrightarrow>
   m1 \<noteq> m2 \<Longrightarrow> consistency_line m1 \<noteq> consistency_line m2"
  by (auto simp: consistency_line_def)

lemma translate_segment_lines:
  "split_newline (translate_segment seg q prev) =
     split_newline (join newline (parts_before_mode seg q prev))
     @ [consistency_line (consistency_mode q)]
     @ split_newline (join newline (parts_after_mode seg))"
proof -
  have b: "parts_before_mode seg q prev \<noteq> []"
    by (simp add: parts_before_mode_def scene_parts_def)
  have a: "parts_after_mode seg \<noteq> []"
    by (simp add: parts_after_mode_def)
  have "join newline ([consistency_line (consistency_mode q)] @ parts_after_mode seg) =
      consistency_line (consistency_mode q) @ newline @ join newline (parts_after_mode seg)"
    using a by (subst join_append) simp_all
  then have "translate_segment seg q prev =
      join newline (parts_before_mode seg q prev) @ CHR 0x0A #
        (consistency_line (consistency_mode q) @ CHR 0x0A # join newline (parts_after_mode seg))"
    using b by (simp add: translate_segment_def prompt_parts_def join_append newline_def)
  then show ?thesis
    by (simp add: split_newline_append split_newline_single consistency_line_no_newline)
qed

text \<open>
  C6. Two questionnaires that differ only in \<open>consistency_mode\<close>, with two distinct
  values among strict, balanced and creative, give for every segment (and every previous
  segment) prompts with the same number of lines, which differ in exactly one line, the
  consistency-mode line, and agree on every other line.
\<close>

theorem mode_changes_one_line:
  assumes "m1 \<in> {''strict'', ''balanced'', ''creative''}"
    and "m2 \<in> {''strict'', ''balanced'', ''creative''}"
    and "m1 \<noteq> m2"
  shows "let L1 = split_newline (translate_segment seg (q\<lparr>consistency_mode := m1\<rparr>) prev);
             L2 = split_newline (translate_segment seg (q\<lparr>consistency_mode := m2\<rparr>) prev)
         in length L1 = length L2 \<and>
            (\<exists>i<length L1. L1 ! i = consistency_line m1 \<and> L2 ! i = consistency_line m2 \<and>
               L1 ! i \<noteq> L2 ! i \<and> (\<forall>j<length L1. j \<noteq> i \<longrightarrow> L1 ! j = L2 ! j))"
proof -
  have ne: "consistency_line m1 \<noteq> consistency_line m2"
    using assms by (rule consistency_line_inj)
  show ?thesis
    unfolding Let_def translate_segment_lines parts_before_mode_indep
    using differ_at_one[of "split_newline (join newline (parts_before_mode seg q prev))"
        "consistency_line m1" "split_newline (join newline (parts_after_mode seg))"
        "consistency_line m2"] ne
    by auto
qed


theorem mode_changes_one_line_witness:
  "''strict'' \<in> {''strict'', ''balanced'', ''creative''} \<and>
   ''creative'' \<in> {''strict'', ''balanced'', ''creative''} \<and> ''strict'' \<noteq> ''creative'' \<and>
   (let L1 = split_newline
               (translate_segment demo_segment_2 (demo\<lparr>consistency_mode := ''strict''\<rparr>)
                  (Some demo_segment_1));
        L2 = split_newline
               (translate_segment demo_segment_2 (demo\<lparr>consistency_mode := ''creative''\<rparr>)
                  (Some demo_segment_1))
    in length L1 = length L2 \<and>
       (\<exists>i<length L1. L1 ! i = consistency_line ''strict'' \<and>
          L2 ! i = consistency_line ''creative'' \<and>
          L1 ! i \<noteq> L2 ! i \<and> (\<forall>j<length L1. j \<noteq> i \<longrightarrow> L1 ! j = L2 ! j)))"
  using mode_changes_one_line[of "''strict''" "''creative''" demo_segment_2 demo
      "Some demo_segment_1"]
  by simp

lemma translate_loop_length: "length (translate_loop q prev ss) = length ss"
  by (induction ss arbitrary: prev) simp_all

lemma translate_loop_scene_ids:
  "map scene_id (translate_loop q prev ss) =
     map (\<lambda>s. Some (project_title q @ ''_segment_'' @ str_int (segment_number s))) ss"
  by (induction ss arbitrary: prev) (simp_all add: request_of_def)

lemma translate_loop_sequence_ids:
  "map sequence_id (translate_loop q prev ss) = map (\<lambda>s. Some (project_title q)) ss"
  by (induction ss arbitrary: prev) (simp_all add: request_of_def)

lemma translate_loop_prompts:
  "map prompt (translate_loop q prev ss) =
     map2 (\<lambda>p s. translate_segment s q p) (prev # map Some (butlast ss)) ss"
proof (induction ss arbitrary: prev)
  case Nil
  show ?case by simp
next
  case (Cons s ss)
  show ?case
    using Cons.IH[of "Some s"] by (cases ss) (simp_all add: request_of_def)
qed

text \<open>
  C1 (amended). When \<open>validate\<close> succeeds, \<open>translate_questionnaire\<close> returns one request
  per segment, in list order; the request of a segment has the scene id
  "{project_title}_segment_{n}" where n is that segment's own \<open>segment_number\<close>, the
  project title as sequence id, and the prompt of \<open>translate_segment\<close> with the segment
  before it as previous segment (none for the first). When the segments are numbered
  1..N by position the k-th scene id is "{project_title}_segment_{k}". When \<open>validate\<close>
  fails, the operation raises \<open>ValueError\<close> with the reason and returns no request.
\<close>

theorem translate_questionnaire_requests:
  "(fst (validate q) \<longrightarrow>
      (\<exists>rs. translate_questionnaire q = Inr rs \<and>
         length rs = length (segments q) \<and>
         map scene_id rs =
           map (\<lambda>s. Some (project_title q @ ''_segment_'' @ str_int (segment_number s)))
             (segments q) \<and>
         map sequence_id rs = map (\<lambda>s. Some (project_title q)) (segments q) \<and>
         map prompt rs =
           map2 (\<lambda>p s. translate_segment s q p) (None # map Some (butlast (segments q)))
             (segments q) \<and>
         (map segment_number (segments q) = map int [1..<Suc (length (segments q))] \<longrightarrow>
            map scene_id rs =
              map (\<lambda>k. Some (project_title q @ ''_segment_'' @ str_int (int k)))
                [1..<Suc (length (segments q))]))) \<and>
   (\<not> fst (validate q) \<longrightarrow>
      (\<exists>r. validate q = (False, Some r) \<and>
         translate_questionnaire q = Inl (ValueError (''Invalid questionnaire: '' @ r))))"
proof (intro conjI impI)
  assume v: "fst (validate q)"
  let ?rs = "translate_loop q None (segments q)"
  let ?g = "\<lambda>n. Some (project_title q @ ''_segment_'' @ str_int n)"
  have r: "translate_questionnaire q = Inr ?rs"
    using v by (cases "validate q") (simp add: translate_questionnaire_def)
  have pos: "map scene_id ?rs = map (\<lambda>k. ?g (int k)) [1..<Suc (length (segments q))]"
    if n: "map segment_number (segments q) = map int [1..<Suc (length (segments q))]"
  proof -
    have "map scene_id ?rs = map ?g (map segment_number (segments q))"
      by (simp add: translate_loop_scene_ids comp_def)
    also have "\<dots> = map (\<lambda>k. ?g (int k)) [1..<Suc (length (segments q))]"
      by (simp only: n map_map comp_def)
    finally show ?thesis .
  qed
  show "\<exists>rs. translate_questionnaire q = Inr rs \<and>
         length rs = length (segments q) \<and>
         map scene_id rs =
           map (\<lambda>s. Some (project_title q @ ''_segment_'' @ str_int (segment_number s)))
             (segments q) \<and>
         map sequence_id rs = map (\<lambda>s. Some (project_title q)) (segments q) \<and>
         map prompt rs =
           map2 (\<lambda>p s. translate_segment s q p) (None # map Some (butlast (segments q)))
             (segments q) \<and>
         (map segment_number (segments q) = map int [1..<Suc (length (segments q))] \<longrightarrow>
            map scene_id rs =
              map (\<lambda>k. Some (project_title q @ ''_segment_'' @ str_int (int k)))
                [1..<Suc (length (segments q))])"
    using r pos translate_loop_length[of q None "segments q"]
      translate_loop_scene_ids[of q None "segments q"]
      translate_loop_sequence_ids[of q None "segments q"]
      translate_loop_prompts[of q None "segments q"]
    by (intro exI[of _ ?rs]) blast
next
  assume v: "\<not> fst (validate q)"
  then obtain r where r: "validate q = (False, Some r)"
    using validate_shape[of q] by auto
  then show "\<exists>r. validate q = (False, Some r) \<and>
         translate_questionnaire q = Inl (ValueError (''Invalid questionnaire: '' @ r))"
    by (simp add: translate_questionnaire_def)
qed

lemma demo_valid: "validate demo = (True, None)"
  by (simp add: validate_def demo_def SOPQuestionnaire_init_def demo_segment_1_def
      demo_segment_2_def SOPSegment_init_def)

theorem translate_questionnaire_requests_witness:
  "fst (validate demo) \<and>
   map segment_number (segments demo) = map int [1..<Suc (length (segments demo))] \<and>
   map_sum id (map scene_id) (translate_questionnaire demo) =
     Inr [Some ''Demo_segment_1'', Some ''Demo_segment_2''] \<and>
   map_sum id (map sequence_id) (translate_questionnaire demo) = Inr [Some ''Demo'', Some ''Demo''] \<and>
   \<not> fst (validate untitled_questionnaire) \<and>
   translate_questionnaire untitled_questionnaire =
     Inl (ValueError ''Invalid questionnaire: Project title is required'')"
proof -
  have s: "segments demo = [demo_segment_1, demo_segment_2]" "project_title demo = ''Demo''"
    by (simp_all add: demo_def SOPQuestionnaire_init_def)
  have n: "map segment_number (segments demo) = map int [1..<Suc (length (segments demo))]"
    by (simp add: s demo_segment_1_def demo_segment_2_def SOPSegment_init_def upt_rec)
  have i: "str_int 1 = ''1''" "str_int 2 = ''2''"
    by code_simp+
  have u: "validate untitled_questionnaire = (False, Some ''Project title is required'')"
    by (simp add: validate_def untitled_questionnaire_def)
  have a: "fst (validate demo)"
    by (simp add: demo_valid)
  have b: "map_sum id (map scene_id) (translate_questionnaire demo) =
     Inr [Some ''Demo_segment_1'', Some ''Demo_segment_2''] \<and>
   map_sum id (map sequence_id) (translate_questionnaire demo) = Inr [Some ''Demo'', Some ''Demo'']"
    using translate_questionnaire_requests[of demo, THEN conjunct1] a n
    by (auto simp: s i upt_rec)
  have c: "translate_questionnaire untitled_questionnaire =
     Inl (ValueError ''Invalid questionnaire: Project title is required'')"
    using translate_questionnaire_requests[of untitled_questionnaire, THEN conjunct2] u
    by simp
  show ?thesis
    using a n b c u by simp
qed

theorem scene_id_position_counterexample:
  "fst (validate solo_questionnaire) \<and>
   map_sum id (map scene_id) (translate_questionnaire solo_questionnaire) =
     Inr [Some ''Demo_segment_7''] \<and>
   map_sum id (map scene_id) (translate_questionnaire solo_questionnaire) \<noteq>
     Inr [Some ''Demo_segment_1'']"
  by code_simp

text \<open>
  C8. For every segment, questionnaire and previous segment, the prompt holds the
  technical-requirements block with the line "- Exactly 8 seconds duration", and the
  prompt does not change when the segment's \<open>duration\<close> field does.
\<close>

theorem technical_block_fixed_duration:
  "sublist (''Technical Requirements:'' @ newline @ ''- Exactly 8 seconds duration'' @ newline)
     (translate_segment seg q previous) \<and>
   ''- Exactly 8 seconds duration'' \<in> set (prompt_parts seg q previous) \<and>
   translate_segment (seg\<lparr>SOPSegment.duration := d\<rparr>) q previous = translate_segment seg q previous"
proof -
  let ?A = "scene_parts seg @ presenter_parts q @ location_parts seg q @ style_parts q
     @ color_parts q @ overlay_parts seg q @ props_parts seg @ continuity_parts seg q previous"
  let ?Z = "[consistency_line (consistency_mode q)] @ parts_after_mode seg"
  have p: "prompt_parts seg q previous = ?A @ technical_parts @ ?Z"
    by (simp add: prompt_parts_def parts_before_mode_def)
  have "sublist (join newline technical_parts) (translate_segment seg q previous)"
    unfolding translate_segment_def p
    by (rule sublist_join_block) (simp add: technical_parts_def)
  moreover have "sublist (''Technical Requirements:'' @ newline @ ''- Exactly 8 seconds duration'' @ newline)
      (join newline technical_parts)"
    by (simp add: technical_parts_def newline_def)
  ultimately have 1: "sublist (''Technical Requirements:'' @ newline @ ''- Exactly 8 seconds duration'' @ newline)
     (translate_segment seg q previous)"
    using sublist_order.order_trans by blast
  have 2: "''- Exactly 8 seconds duration'' \<in> set (prompt_parts seg q previous)"
    by (simp add: p technical_parts_def)
  have 3: "prompt_parts (seg\<lparr>SOPSegment.duration := d\<rparr>) q previous = prompt_parts seg q previous"
    by (simp add: prompt_parts_def parts_before_mode_def parts_after_mode_def scene_parts_def
        location_parts_def overlay_parts_def props_parts_def continuity_parts_def
        negative_parts_def split: option.split)
  show ?thesis
    using 1 2 3 by (simp add: translate_segment_def)
qed

subsection \<open>The continuity block\<close>

lemma continuity_parts_in_prompt:
  "set (continuity_parts seg q previous) \<subseteq> set (prompt_parts seg q previous)"
  by (auto simp: prompt_parts_def parts_before_mode_def)

lemma sublist_prompt_line:
  "l \<in> set (prompt_parts seg q previous) \<Longrightarrow> sublist p l \<Longrightarrow>
   sublist p (translate_segment seg q previous)"
  unfolding translate_segment_def by (rule sublist_trans_line)

lemma continuity_header:
  "1 < segment_number seg \<Longrightarrow>
   ''CONTINUITY REQUIREMENTS:'' \<in> set (continuity_parts seg q (Some p)) \<and>
   ''- Color palette MUST be consistent with previous segment''
     \<in> set (continuity_parts seg q (Some p))"
  by (simp add: continuity_parts_def)

lemma continuity_presenter:
  "1 < segment_number seg \<Longrightarrow>
   presenter_type q = ''person'' \<or> presenter_type q = ''animated_character'' \<Longrightarrow>
   (''- Presenter MUST match exact appearance from Segment '' @ str_int (segment_number p))
     \<in> set (continuity_parts seg q (Some p))"
  by (auto simp: continuity_parts_def)

lemma continuity_absent:
  "previous = None \<or> segment_number seg \<le> 1 \<Longrightarrow> continuity_parts seg q previous = []"
  by (auto simp: continuity_parts_def split: option.split)

lemma strict_line_in_prompt:
  "consistency_mode q = ''strict'' \<Longrightarrow>
   sublist ''STRICT consistency: no variations from established baseline''
     (translate_segment seg q previous)"
proof -
  assume m: "consistency_mode q = ''strict''"
  have "''- STRICT consistency: no variations from established baseline''
      \<in> set (prompt_parts seg q previous)"
    by (simp add: prompt_parts_def consistency_line_def m)
  moreover have "sublist ''STRICT consistency: no variations from established baseline''
      ''- STRICT consistency: no variations from established baseline''"
    by code_simp
  ultimately show ?thesis
    by (rule sublist_prompt_line)
qed

lemma demo_prompts:
  "map_sum id (map prompt) (translate_questionnaire demo) =
     Inr [translate_segment demo_segment_1 demo None,
          translate_segment demo_segment_2 demo (Some demo_segment_1)]"
proof -
  have "segments demo = [demo_segment_1, demo_segment_2]"
    by (simp add: demo_def SOPQuestionnaire_init_def)
  then show ?thesis
    by (simp add: translate_questionnaire_def demo_valid request_of_def)
qed

lemma demo_segment_1_prompt:
  "\<not> sublist ''Presenter MUST match exact appearance from Segment 1''
       (translate_segment demo_segment_1 demo None) \<and>
   \<not> sublist ''CONTINUITY REQUIREMENTS:'' (translate_segment demo_segment_1 demo None)"
  by code_simp

text \<open>
  C2 (amended). The continuity block is emitted exactly when a previous segment is
  supplied and the segment's number is greater than 1. Then the prompt contains
  "CONTINUITY REQUIREMENTS:" and the colour-palette requirement, and, when the presenter
  is a person or an animated character, "Presenter MUST match exact appearance from
  Segment n" with n the previous segment's number. Without a previous segment, or with a
  number of at most 1, the section contributes no line and the prompt is the one built
  without a previous segment. The strict-mode line is part of every prompt of a strict
  questionnaire, whatever the segment's number. For the project "Demo": segment 2's
  prompt contains both phrases; segment 1's prompt contains the strict-mode line and
  neither the presenter-match phrase nor the continuity heading.
\<close>

theorem continuity_block_condition:
  "(previous = Some p \<and> 1 < segment_number seg \<longrightarrow>
      sublist ''CONTINUITY REQUIREMENTS:'' (translate_segment seg q previous) \<and>
      sublist ''- Color palette MUST be consistent with previous segment''
        (translate_segment seg q previous) \<and>
      (presenter_type q = ''person'' \<or> presenter_type q = ''animated_character'' \<longrightarrow>
         sublist (''Presenter MUST match exact appearance from Segment '' @
                    str_int (segment_number p))
           (translate_segment seg q previous))) \<and>
   (previous = None \<or> segment_number seg \<le> 1 \<longrightarrow>
      continuity_parts seg q previous = [] \<and>
      translate_segment seg q previous = translate_segment seg q None) \<and>
   (consistency_mode q = ''strict'' \<longrightarrow>
      sublist ''STRICT consistency: no variations from established baseline''
        (translate_segment seg q previous)) \<and>
   map_sum id (map prompt) (translate_questionnaire demo) =
     Inr [translate_segment demo_segment_1 demo None,
          translate_segment demo_segment_2 demo (Some demo_segment_1)] \<and>
   sublist ''Presenter MUST match exact appearance from Segment 1''
     (translate_segment demo_segment_2 demo (Some demo_segment_1)) \<and>
   sublist ''STRICT consistency: no variations from established baseline''
     (translate_segment demo_segment_2 demo (Some demo_segment_1)) \<and>
   sublist ''STRICT consistency: no variations from established baseline''
     (translate_segment demo_segment_1 demo None) \<and>
   \<not> sublist ''Presenter MUST match exact appearance from Segment 1''
       (translate_segment demo_segment_1 demo None) \<and>
   \<not> sublist ''CONTINUITY REQUIREMENTS:'' (translate_segment demo_segment_1 demo None)"
proof -
  have present: "sublist ''CONTINUITY REQUIREMENTS:'' (translate_segment seg q (Some p)) \<and>
      sublist ''- Color palette MUST be consistent with previous segment''
        (translate_segment seg q (Some p))"
    if "1 < segment_number seg"
    using continuity_header[OF that, of q p] continuity_parts_in_prompt[of seg q "Some p"]
    by (auto intro: sublist_prompt_line)
  have presenter: "sublist (''Presenter MUST match exact appearance from Segment '' @
                    str_int (segment_number p)) (translate_segment seg q (Some p))"
    if "1 < segment_number seg"
      and "presenter_type q = ''person'' \<or> presenter_type q = ''animated_character''"
  proof -
    have "(''- Presenter MUST match exact appearance from Segment '' @ str_int (segment_number p))
        \<in> set (prompt_parts seg q (Some p))"
      using continuity_presenter[OF that, of p] continuity_parts_in_prompt[of seg q "Some p"]
      by blast
    moreover have "sublist (''Presenter MUST match exact appearance from Segment '' @
          str_int (segment_number p))
        (''- Presenter MUST match exact appearance from Segment '' @ str_int (segment_number p))"
      using sublist_append_leftI[of "''Presenter MUST match exact appearance from Segment '' @
          str_int (segment_number p)" "''- ''"]
      by simp
    ultimately show ?thesis
      by (rule sublist_prompt_line)
  qed
  have absent: "continuity_parts seg q previous = [] \<and>
      translate_segment seg q previous = translate_segment seg q None"
    if "previous = None \<or> segment_number seg \<le> 1"
    using continuity_absent[OF that, of q] continuity_absent[of None seg q]
    by (simp add: translate_segment_def prompt_parts_def parts_before_mode_def)
  have d2: "1 < segment_number demo_segment_2" "segment_number demo_segment_1 = 1"
    "presenter_type demo = ''person''" "consistency_mode demo = ''strict''"
    by (simp_all add: demo_segment_1_def demo_segment_2_def demo_def SOPSegment_init_def
        SOPQuestionnaire_init_def)
  have one: "str_int 1 = ''1''"
    by code_simp
  have demo2: "sublist ''Presenter MUST match exact appearance from Segment 1''
     (translate_segment demo_segment_2 demo (Some demo_segment_1))"
    using continuity_presenter[of demo_segment_2 demo demo_segment_1]
      continuity_parts_in_prompt[of demo_segment_2 demo "Some demo_segment_1"]
      sublist_prompt_line[of "''- Presenter MUST match exact appearance from Segment 1''"
        demo_segment_2 demo "Some demo_segment_1"
        "''Presenter MUST match exact appearance from Segment 1''"]
      sublist_append_leftI[of "''Presenter MUST match exact appearance from Segment 1''" "''- ''"]
    by (auto simp: d2 one)
  show ?thesis
    using present presenter absent strict_line_in_prompt[of q seg previous]
      strict_line_in_prompt[of demo, OF d2(4)] demo_prompts demo2 demo_segment_1_prompt
    by blast
qed

theorem continuity_block_condition_witness:
  "1 < segment_number demo_segment_2 \<and> presenter_type demo = ''person'' \<and>
   sublist ''CONTINUITY REQUIREMENTS:''
     (translate_segment demo_segment_2 demo (Some demo_segment_1)) \<and>
   sublist (''Presenter MUST match exact appearance from Segment '' @
              str_int (segment_number demo_segment_1))
     (translate_segment demo_segment_2 demo (Some demo_segment_1)) \<and>
   segment_number demo_segment_1 \<le> 1 \<and>
   continuity_parts demo_segment_1 demo (Some demo_segment_2) = [] \<and>
   translate_segment demo_segment_1 demo (Some demo_segment_2) =
     translate_segment demo_segment_1 demo None \<and>
   consistency_mode demo = ''strict'' \<and>
   sublist ''STRICT consistency: no variations from established baseline''
     (translate_segment demo_segment_1 demo None)"
proof -
  have d: "1 < segment_number demo_segment_2" "segment_number demo_segment_1 \<le> 1"
    "presenter_type demo = ''person''" "consistency_mode demo = ''strict''"
    by (simp_all add: demo_segment_1_def demo_segment_2_def demo_def SOPSegment_init_def
        SOPQuestionnaire_init_def)
  have a: "sublist ''CONTINUITY REQUIREMENTS:''
     (translate_segment demo_segment_2 demo (Some demo_segment_1)) \<and>
   sublist (''Presenter MUST match exact appearance from Segment '' @
              str_int (segment_number demo_segment_1))
     (translate_segment demo_segment_2 demo (Some demo_segment_1))"
    using continuity_block_condition[of "Some demo_segment_1" demo_segment_1 demo_segment_2 demo,
        THEN conjunct1] d
    by simp
  have b: "continuity_parts demo_segment_1 demo (Some demo_segment_2) = [] \<and>
   translate_segment demo_segment_1 demo (Some demo_segment_2) =
     translate_segment demo_segment_1 demo None"
    using continuity_block_condition[of "Some demo_segment_2" demo_segment_2 demo_segment_1 demo,
        THEN conjunct2, THEN conjunct1] d
    by simp
  have c: "sublist ''STRICT consistency: no variations from established baseline''
     (translate_segment demo_segment_1 demo None)"
    using continuity_block_condition[of None demo_segment_2 demo_segment_1 demo,
        THEN conjunct2, THEN conjunct2, THEN conjunct1] d
    by simp
  show ?thesis
    using a b c d by simp
qed

theorem continuity_claim_counterexample:
  "segment_number demo_segment_1 = 1 \<and>
   sublist ''STRICT consistency: no variations from established baseline''
     (translate_segment demo_segment_1 demo None) \<and>
   fst (validate solo_questionnaire) \<and>
   map segment_number (segments solo_questionnaire) = [7] \<and>
   map_sum id (map (sublist ''CONTINUITY REQUIREMENTS:'' \<circ> prompt))
     (translate_questionnaire solo_questionnaire) = Inr [False]"
  by code_simp

section \<open>Properties of the client\<close>

lemma strip_empty_iff: "length (strip p) = 0 \<longleftrightarrow> list_all py_isspace p"
proof -
  have "(\<forall>x\<in>set (dropWhile P xs). P x) \<longleftrightarrow> (\<forall>x\<in>set xs. P x)" for P and xs :: "'a list"
    by (induction xs) auto
  then show ?thesis
    by (simp add: strip_def list_all_iff dropWhile_eq_Nil_conv)
qed

lemma validate_prompt_blank:
  "list_all py_isspace p \<Longrightarrow> validate_prompt p = (False, Some ''Prompt cannot be empty'')"
  using strip_empty_iff[of p] by (simp add: validate_prompt_def)

lemma validate_prompt_not_blank:
  "\<not> list_all py_isspace p \<Longrightarrow>
   validate_prompt p =
     (if length p < 10 then (False, Some ''Prompt too short (minimum 10 characters)'')
      else if length p > 5000 then (False, Some ''Prompt too long (maximum 5000 characters)'')
      else (True, None))"
  using strip_empty_iff[of p] by (auto simp: validate_prompt_def)

text \<open>
  C9. \<open>validate_prompt\<close> rejects every empty or whitespace-only input with "Prompt cannot
  be empty"; it rejects every input shorter than 10 characters, as too short when it is
  not blank; it rejects every input longer than 5000 characters, as too long when it is
  not blank; it accepts every other input. "" and "hi" are rejected, a string of 5001
  letters is rejected as too long, a string of 50 letters is accepted.
\<close>

theorem validate_prompt_cases:
  "(list_all py_isspace p \<longrightarrow> validate_prompt p = (False, Some ''Prompt cannot be empty'')) \<and>
   (length p < 10 \<longrightarrow> \<not> fst (validate_prompt p)) \<and>
   (\<not> list_all py_isspace p \<and> length p < 10 \<longrightarrow>
      validate_prompt p = (False, Some ''Prompt too short (minimum 10 characters)'')) \<and>
   (5000 < length p \<longrightarrow> \<not> fst (validate_prompt p)) \<and>
   (\<not> list_all py_isspace p \<and> 5000 < length p \<longrightarrow>
      validate_prompt p = (False, Some ''Prompt too long (maximum 5000 characters)'')) \<and>
   (\<not> list_all py_isspace p \<and> 10 \<le> length p \<and> length p \<le> 5000 \<longrightarrow>
      validate_prompt p = (True, None)) \<and>
   validate_prompt [] = (False, Some ''Prompt cannot be empty'') \<and>
   validate_prompt ''hi'' = (False, Some ''Prompt too short (minimum 10 characters)'') \<and>
   validate_prompt (replicate 5001 CHR ''a'') =
     (False, Some ''Prompt too long (maximum 5000 characters)'') \<and>
   validate_prompt (replicate 50 CHR ''a'') = (True, None)"
proof -
  have a: "\<not> py_isspace CHR ''a''" "\<not> py_isspace CHR ''h''"
    by (simp_all add: py_isspace_def)
  have r: "\<not> list_all py_isspace (replicate (Suc n) CHR ''a'')" for n
    using a by simp
  have hi: "validate_prompt ''hi'' = (False, Some ''Prompt too short (minimum 10 characters)'')"
    using validate_prompt_not_blank[of "''hi''"] a by simp
  have long: "validate_prompt (replicate 5001 CHR ''a'') =
     (False, Some ''Prompt too long (maximum 5000 characters)'')"
    using validate_prompt_not_blank[of "replicate 5001 CHR ''a''"] r[of 5000] by simp
  have mid: "validate_prompt (replicate 50 CHR ''a'') = (True, None)"
    using validate_prompt_not_blank[of "replicate 50 CHR ''a''"] r[of 49] by simp
  have blank: "validate_prompt [] = (False, Some ''Prompt cannot be empty'')"
    by (simp add: validate_prompt_def)
  have gen: "(list_all py_isspace p \<longrightarrow> validate_prompt p = (False, Some ''Prompt cannot be empty'')) \<and>
   (length p < 10 \<longrightarrow> \<not> fst (validate_prompt p)) \<and>
   (\<not> list_all py_isspace p \<and> length p < 10 \<longrightarrow>
      validate_prompt p = (False, Some ''Prompt too short (minimum 10 characters)'')) \<and>
   (5000 < length p \<longrightarrow> \<not> fst (validate_prompt p)) \<and>
   (\<not> list_all py_isspace p \<and> 5000 < length p \<longrightarrow>
      validate_prompt p = (False, Some ''Prompt too long (maximum 5000 characters)'')) \<and>
   (\<not> list_all py_isspace p \<and> 10 \<le> length p \<and> length p \<le> 5000 \<longrightarrow>
      validate_prompt p = (True, None))"
    using validate_prompt_blank[of p] validate_prompt_not_blank[of p]
    by (cases "list_all py_isspace p") auto
  show ?thesis
    using gen hi long mid blank by blast
qed

theorem validate_prompt_cases_witness:
  "list_all py_isspace [CHR 0x20, CHR 0x09, CHR 0x0A] \<and>
   validate_prompt [CHR 0x20, CHR 0x09, CHR 0x0A] = (False, Some ''Prompt cannot be empty'') \<and>
   \<not> list_all py_isspace ''too short'' \<and> length ''too short'' < 10 \<and>
   validate_prompt ''too short'' = (False, Some ''Prompt too short (minimum 10 characters)'') \<and>
   \<not> list_all py_isspace (replicate 5001 CHR ''b'') \<and> 5000 < length (replicate 5001 CHR ''b'') \<and>
   validate_prompt (replicate 5001 CHR ''b'') =
     (False, Some ''Prompt too long (maximum 5000 characters)'') \<and>
   \<not> list_all py_isspace ''ten chars!'' \<and> 10 \<le> length ''ten chars!'' \<and>
   length ''ten chars!'' \<le> 5000 \<and> validate_prompt ''ten chars!'' = (True, None)"
proof -
  have s: "list_all py_isspace [CHR 0x20, CHR 0x09, CHR 0x0A]"
    by (simp add: py_isspace_def)
  have t: "\<not> list_all py_isspace ''too short''" "\<not> list_all py_isspace ''ten chars!''"
    by (simp_all add: py_isspace_def)
  have b: "\<not> list_all py_isspace (replicate 5001 CHR ''b'')"
    by (simp add: list_all_iff py_isspace_def)
  have 1: "validate_prompt [CHR 0x20, CHR 0x09, CHR 0x0A] = (False, Some ''Prompt cannot be empty'')"
    using validate_prompt_cases[of "[CHR 0x20, CHR 0x09, CHR 0x0A]"] s by blast
  have 2: "validate_prompt ''too short'' = (False, Some ''Prompt too short (minimum 10 characters)'')"
    using validate_prompt_cases[of "''too short''"] t by simp
  have 3: "validate_prompt (replicate 5001 CHR ''b'') =
     (False, Some ''Prompt too long (maximum 5000 characters)'')"
    using validate_prompt_cases[of "replicate 5001 CHR ''b''"] b by simp
  have 4: "validate_prompt ''ten chars!'' = (True, None)"
    using validate_prompt_cases[of "''ten chars!''"] t by simp
  show ?thesis
    using s t b 1 2 3 4 by simp
qed

subsection \<open>Polling\<close>

lemma not_done_shape:
  assumes "not_done a"
  obtains kvs where "a = Inr (JObj kvs)" and "\<not> done_flag kvs"
proof (cases a)
  case (Inl e)
  with assms show ?thesis by (simp add: not_done_def)
next
  case (Inr j)
  with assms that show ?thesis by (cases j) (simp_all add: not_done_def)
qed

lemma done_with_url_shape:
  assumes "done_with_url url a"
  obtains kvs rs where "a = Inr (JObj kvs)" and "done_flag kvs"
    and "''error'' \<notin> set (map fst kvs)" and "truthy_json url"
    and "map_of kvs ''response'' = Some (JObj rs)" and "map_of rs ''videoUrl'' = Some url"
proof (cases a)
  case (Inl e)
  with assms show ?thesis by (simp add: done_with_url_def)
next
  case (Inr j)
  show ?thesis
  proof (cases j)
    case (JObj kvs)
    with Inr assms have k: "done_flag kvs" "''error'' \<notin> set (map fst kvs)" "truthy_json url"
      and r: "(case map_of kvs ''response'' of Some (JObj rs) \<Rightarrow> map_of rs ''videoUrl'' = Some url
               | _ \<Rightarrow> False)"
      by (simp_all add: done_with_url_def)
    from r obtain rs where "map_of kvs ''response'' = Some (JObj rs)"
      "map_of rs ''videoUrl'' = Some url"
      by (cases "map_of kvs ''response''"; simp split: json.splits)
    with that Inr JObj k show ?thesis by blast
  qed (use Inr assms in \<open>simp_all add: done_with_url_def\<close>)
qed

lemma done_with_error_shape:
  assumes "done_with_error err a"
  obtains kvs where "a = Inr (JObj kvs)" and "done_flag kvs"
    and "map_of kvs ''error'' = Some err"
proof (cases a)
  case (Inl e)
  with assms show ?thesis by (simp add: done_with_error_def)
next
  case (Inr j)
  with assms that show ?thesis by (cases j) (simp_all add: done_with_error_def)
qed

lemma poll_round_not_done:
  assumes "not_done (get_json w op i)"
  shows "poll_round w c op req i = None"
proof -
  from assms obtain kvs where "get_json w op i = Inr (JObj kvs)" "\<not> done_flag kvs"
    by (rule not_done_shape)
  then show ?thesis
    by (simp add: poll_round_def poll_try_def and_then_def done_flag_def)
qed

lemma poll_round_done_with_url:
  assumes "done_with_url url (get_json w op i)"
  shows "\<exists>md. poll_round w c op req i =
     Some (case download_video w c url (scene_id req) of
             Inl e \<Rightarrow> failed_response (JStr (''Polling failed: '' @ exc_text e))
           | Inr path \<Rightarrow> success_response path url md)"
proof -
  from assms obtain kvs rs where k: "get_json w op i = Inr (JObj kvs)" "done_flag kvs"
    "''error'' \<notin> set (map fst kvs)" "truthy_json url"
    "map_of kvs ''response'' = Some (JObj rs)" "map_of rs ''videoUrl'' = Some url"
    by (rule done_with_url_shape)
  have "poll_round w c op req i =
     Some (case download_video w c url (scene_id req) of
             Inl e \<Rightarrow> failed_response (JStr (''Polling failed: '' @ exc_text e))
           | Inr path \<Rightarrow> success_response path url
               (case map_of rs ''metadata'' of None \<Rightarrow> JObj [] | Some m \<Rightarrow> m))"
  proof (cases "download_video w c url (scene_id req)")
    case (Inl e)
    with k show ?thesis
      using k(2) by (simp add: poll_round_def poll_try_def and_then_def done_flag_def)
  next
    case (Inr path)
    with k show ?thesis
      using k(2) by (simp add: poll_round_def poll_try_def and_then_def done_flag_def)
  qed
  then show ?thesis ..
qed

lemma poll_round_done_with_error:
  assumes "done_with_error err (get_json w op i)"
  shows "poll_round w c op req i =
     Some (case py_get err ''message'' (JStr ''Unknown error'') of
             Inl e \<Rightarrow> failed_response (JStr (''Polling failed: '' @ exc_text e))
           | Inr m \<Rightarrow> failed_response m)"
proof -
  from assms obtain kvs where k: "get_json w op i = Inr (JObj kvs)" "done_flag kvs"
    "map_of kvs ''error'' = Some err"
    by (rule done_with_error_shape)
  from k(3) have "''error'' \<in> set (map fst kvs)"
    by (force dest: map_of_SomeD)
  with k show ?thesis
    using k(2)
    by (cases "py_get err ''message'' (JStr ''Unknown error'')")
       (simp_all add: poll_round_def poll_try_def and_then_def done_flag_def)
qed

lemma poll_loop_skip:
  "(\<forall>j<k. poll_round w c op req (i + j) = None) \<Longrightarrow>
   poll_loop w c op req i (k + n) = poll_loop w c op req (i + k) n"
proof (induction k arbitrary: i)
  case 0
  show ?case by simp
next
  case (Suc k)
  have "poll_round w c op req i = None"
    using Suc.prems[rule_format, of 0] by simp
  moreover have "\<forall>j<k. poll_round w c op req (Suc i + j) = None"
    using Suc.prems by (auto dest: spec[of _ "Suc _"])
  ultimately show ?case
    using Suc.IH[of "Suc i"] by simp
qed

lemma poll_loop_bound: "snd (poll_loop w c op req i n) \<le> i + n"
proof (induction n arbitrary: i)
  case 0
  show ?case by simp
next
  case (Suc n)
  show ?case
    using Suc.IH[of "Suc i"] by (simp split: option.split)
qed

lemma poll_loop_stops:
  assumes "k < max_polls" and "\<forall>i<k. not_done (get_json w op i)"
    and "poll_round w c op req k = Some r"
  shows "poll_loop w c op req 0 max_polls = (r, Suc k)"
proof -
  obtain m where m: "max_polls = k + Suc m"
    using assms(1) by (auto simp: less_iff_Suc_add)
  have "\<forall>j<k. poll_round w c op req (0 + j) = None"
    using assms(2) by (simp add: poll_round_not_done)
  then have "poll_loop w c op req 0 (k + Suc m) = poll_loop w c op req (0 + k) (Suc m)"
    by (rule poll_loop_skip)
  with assms(3) m show ?thesis
    by simp
qed

lemma poll_loop_timeout:
  assumes "\<forall>i<max_polls. not_done (get_json w op i)"
  shows "poll_loop w c op req 0 max_polls =
     (failed_response (JStr ''Generation timeout''), max_polls)"
proof -
  have "\<forall>j<max_polls. poll_round w c op req (0 + j) = None"
    using assms by (simp add: poll_round_not_done)
  then have "poll_loop w c op req 0 (max_polls + 0) = poll_loop w c op req (0 + max_polls) 0"
    by (rule poll_loop_skip)
  then show ?thesis
    by simp
qed


text \<open>
  C5 (amended). For every sequence of poll responses, polling makes at most 60 status
  requests and always returns a response. When the responses before attempt k (k < 60)
  are not done and the response at attempt k is done, has no error field and carries a
  video URL, attempt k is the last one: the result is a success with that URL when the
  download succeeds, and the failed response "Polling failed: " followed by the error
  text when the download raises. When the response at attempt k is done with an error
  field, attempt k is the last one and the result is a failed response: it carries the
  error object's message, "Unknown error" when the object has none, or a "Polling
  failed" text when the error field is not an object. Sixty not-done responses give the
  failed response "Generation timeout" after exactly 60 requests.
\<close>

theorem poll_outcomes:
  "poll_attempts w c op req \<le> 60 \<and>
   (\<exists>r. poll_generation_status w c op req = Inr r) \<and>
   (k < 60 \<and> (\<forall>i<k. not_done (get_json w op i)) \<and> done_with_url url (get_json w op k) \<longrightarrow>
      poll_attempts w c op req = Suc k \<and>
      (\<forall>path. download_video w c url (scene_id req) = Inr path \<longrightarrow>
         (\<exists>r. poll_generation_status w c op req = Inr r \<and> success r \<and>
            video_url r = url \<and> video_path r = Some path \<and> error r = JNull)) \<and>
      (\<forall>e. download_video w c url (scene_id req) = Inl e \<longrightarrow>
         poll_generation_status w c op req =
           Inr (failed_response (JStr (''Polling failed: '' @ exc_text e))))) \<and>
   (k < 60 \<and> (\<forall>i<k. not_done (get_json w op i)) \<and> done_with_error err (get_json w op k) \<longrightarrow>
      poll_attempts w c op req = Suc k \<and>
      (\<exists>r. poll_generation_status w c op req = Inr r \<and> \<not> success r) \<and>
      (\<forall>es. err = JObj es \<longrightarrow>
         poll_generation_status w c op req =
           Inr (failed_response
                  (case map_of es ''message'' of None \<Rightarrow> JStr ''Unknown error'' | Some m \<Rightarrow> m)))) \<and>
   ((\<forall>i<60. not_done (get_json w op i)) \<longrightarrow>
      poll_generation_status w c op req = Inr (failed_response (JStr ''Generation timeout'')) \<and>
      poll_attempts w c op req = 60)"
proof -
  have bound: "poll_attempts w c op req \<le> 60"
    using poll_loop_bound[of w c op req 0 max_polls] by (simp add: poll_attempts_def max_polls_def)
  have ret: "\<exists>r. poll_generation_status w c op req = Inr r"
    by (simp add: poll_generation_status_def)
  have url: "poll_attempts w c op req = Suc k \<and>
      (\<forall>path. download_video w c url (scene_id req) = Inr path \<longrightarrow>
         (\<exists>r. poll_generation_status w c op req = Inr r \<and> success r \<and>
            video_url r = url \<and> video_path r = Some path \<and> error r = JNull)) \<and>
      (\<forall>e. download_video w c url (scene_id req) = Inl e \<longrightarrow>
         poll_generation_status w c op req =
           Inr (failed_response (JStr (''Polling failed: '' @ exc_text e))))"
    if h: "k < 60" "\<forall>i<k. not_done (get_json w op i)" "done_with_url url (get_json w op k)"
  proof -
    have "k < max_polls"
      using h(1) by (simp add: max_polls_def)
    obtain md where "poll_round w c op req k =
        Some (case download_video w c url (scene_id req) of
                Inl e \<Rightarrow> failed_response (JStr (''Polling failed: '' @ exc_text e))
              | Inr path \<Rightarrow> success_response path url md)"
      using poll_round_done_with_url[OF h(3)] by blast
    with \<open>k < max_polls\<close> h(2) have "poll_loop w c op req 0 max_polls =
        (case download_video w c url (scene_id req) of
           Inl e \<Rightarrow> failed_response (JStr (''Polling failed: '' @ exc_text e))
         | Inr path \<Rightarrow> success_response path url md, Suc k)"
      by (rule poll_loop_stops)
    then show ?thesis
      by (simp add: poll_attempts_def poll_generation_status_def success_response_def
          VideoGenerationResponse_init_def)
  qed
  have err: "poll_attempts w c op req = Suc k \<and>
      (\<exists>r. poll_generation_status w c op req = Inr r \<and> \<not> success r) \<and>
      (\<forall>es. err = JObj es \<longrightarrow>
         poll_generation_status w c op req =
           Inr (failed_response
                  (case map_of es ''message'' of None \<Rightarrow> JStr ''Unknown error'' | Some m \<Rightarrow> m)))"
    if "k < 60" "\<forall>i<k. not_done (get_json w op i)" "done_with_error err (get_json w op k)"
  proof -
    have "k < max_polls"
      using that(1) by (simp add: max_polls_def)
    from poll_loop_stops[OF this that(2) poll_round_done_with_error[OF that(3)]]
    have l: "poll_loop w c op req 0 max_polls =
        (case py_get err ''message'' (JStr ''Unknown error'') of
           Inl e \<Rightarrow> failed_response (JStr (''Polling failed: '' @ exc_text e))
         | Inr m \<Rightarrow> failed_response m, Suc k)" .
    have "\<not> success (case py_get err ''message'' (JStr ''Unknown error'') of
           Inl e \<Rightarrow> failed_response (JStr (''Polling failed: '' @ exc_text e))
         | Inr m \<Rightarrow> failed_response m)"
      by (simp add: failed_response_def VideoGenerationResponse_init_def split: sum.split)
    with l show ?thesis
      by (simp add: poll_attempts_def poll_generation_status_def)
  qed
  have timeout: "poll_generation_status w c op req = Inr (failed_response (JStr ''Generation timeout'')) \<and>
      poll_attempts w c op req = 60"
    if "\<forall>i<60. not_done (get_json w op i)"
    using poll_loop_timeout[of w op c req] that
    by (simp add: poll_attempts_def poll_generation_status_def max_polls_def)
  show ?thesis
    using bound ret url err timeout by blast
qed


theorem poll_outcomes_witness:
  "done_with_url (JStr ''http://x/v.mp4'') (get_json (polling_world finished_body None) (JStr ''op1'') 0) \<and>
   poll_attempts (polling_world finished_body None) demo_config (JStr ''op1'') demo_request = 1 \<and>
   map_sum id success
     (poll_generation_status (polling_world finished_body None) demo_config (JStr ''op1'') demo_request)
     = Inr True \<and>
   poll_generation_status (polling_world finished_body (Some (OSError ''disk full''))) demo_config
       (JStr ''op1'') demo_request
     = Inr (failed_response (JStr ''Polling failed: disk full'')) \<and>
   done_with_error (JObj [(''message'', JStr ''quota exceeded'')])
     (get_json (polling_world error_body None) (JStr ''op1'') 0) \<and>
   poll_generation_status (polling_world error_body None) demo_config (JStr ''op1'') demo_request
     = Inr (failed_response (JStr ''quota exceeded'')) \<and>
   not_done (get_json (polling_world pending_body None) (JStr ''op1'') 59) \<and>
   poll_generation_status (polling_world pending_body None) demo_config (JStr ''op1'') demo_request
     = Inr (failed_response (JStr ''Generation timeout'')) \<and>
   poll_attempts (polling_world pending_body None) demo_config (JStr ''op1'') demo_request = 60"
proof -
  let ?op = "JStr ''op1''"
  let ?url = "JStr ''http://x/v.mp4''"
  have g: "get_json (polling_world body f) op i = Inr body"
      "fetch_file (polling_world body f) u p = f" for body f op i u p
    by (simp_all add: polling_world_def)
  have u: "done_with_url ?url (Inr finished_body)"
    by (simp add: done_with_url_def finished_body_def done_flag_def)
  have e: "done_with_error (JObj [(''message'', JStr ''quota exceeded'')]) (Inr error_body)"
    by (simp add: done_with_error_def error_body_def done_flag_def)
  have n: "not_done (Inr pending_body)"
    by (simp add: not_done_def pending_body_def done_flag_def)
  have ok: "download_video (polling_world finished_body None) demo_config ?url (scene_id demo_request)
      = Inr (output_path (polling_world finished_body None) demo_config (scene_id demo_request))"
    by (simp add: download_video_def g)
  have bad: "download_video (polling_world finished_body (Some (OSError ''disk full''))) demo_config
      ?url (scene_id demo_request) = Inl (OSError ''disk full'')"
    by (simp add: download_video_def g)
  have 1: "poll_attempts (polling_world finished_body None) demo_config ?op demo_request = 1 \<and>
      map_sum id success
        (poll_generation_status (polling_world finished_body None) demo_config ?op demo_request)
        = Inr True"
    using poll_outcomes[where k = 0 and w = "polling_world finished_body None" and op = ?op and url = ?url
        and c = demo_config and req = demo_request, THEN conjunct2, THEN conjunct2, THEN conjunct1] u ok
    by (auto simp: g)
  have 2: "poll_generation_status (polling_world finished_body (Some (OSError ''disk full'')))
      demo_config ?op demo_request = Inr (failed_response (JStr ''Polling failed: disk full''))"
    using poll_outcomes[where k = 0 and w = "polling_world finished_body (Some (OSError ''disk full''))"
        and op = ?op and url = ?url and c = demo_config and req = demo_request,
        THEN conjunct2, THEN conjunct2, THEN conjunct1]
      u bad
    by (auto simp: g)
  have 3: "poll_generation_status (polling_world error_body None) demo_config ?op demo_request
     = Inr (failed_response (JStr ''quota exceeded''))"
    using poll_outcomes[where k = 0 and err = "JObj [(''message'', JStr ''quota exceeded'')]"
        and w = "polling_world error_body None" and op = ?op and c = demo_config
        and req = demo_request, THEN conjunct2, THEN conjunct2, THEN conjunct2, THEN conjunct1] e
    by (simp add: g)
  have 4: "poll_generation_status (polling_world pending_body None) demo_config ?op demo_request
     = Inr (failed_response (JStr ''Generation timeout'')) \<and>
   poll_attempts (polling_world pending_body None) demo_config ?op demo_request = 60"
    using poll_outcomes[where w = "polling_world pending_body None" and op = ?op and c = demo_config
        and req = demo_request, THEN conjunct2, THEN conjunct2, THEN conjunct2, THEN conjunct2] n
    by (simp add: g)
  show ?thesis
    using 1 2 3 4 u e n by (simp add: g)
qed

theorem poll_download_failure_counterexample:
  "done_with_url (JStr ''http://x/v.mp4'')
     (get_json (polling_world finished_body (Some (OSError ''disk full''))) (JStr ''op1'') 0) \<and>
   poll_generation_status (polling_world finished_body (Some (OSError ''disk full''))) demo_config
       (JStr ''op1'') demo_request
     = Inr (failed_response (JStr ''Polling failed: disk full'')) \<and>
   \<not> success (failed_response (JStr ''Polling failed: disk full''))"
proof -
  have "poll_round (polling_world finished_body (Some (OSError ''disk full''))) demo_config
      (JStr ''op1'') demo_request 0 = Some (failed_response (JStr ''Polling failed: disk full''))"
    by (simp add: poll_round_def poll_try_def and_then_def polling_world_def finished_body_def
        download_video_def)
  then have "poll_loop (polling_world finished_body (Some (OSError ''disk full''))) demo_config
      (JStr ''op1'') demo_request 0 max_polls
      = (failed_response (JStr ''Polling failed: disk full''), Suc 0)"
    by (intro poll_loop_stops) (simp_all add: max_polls_def)
  then show ?thesis
    by (simp add: poll_generation_status_def done_with_url_def done_flag_def
        polling_world_def finished_body_def failed_response_def VideoGenerationResponse_init_def)
qed


subsection \<open>Generation\<close>

lemma generate_video_handler:
  "generate_video w c request =
     (case generate_video_try w c request of
        Inl e \<Rightarrow> Inr (failed_response (JStr (exc_text e)))
      | Inr r \<Rightarrow> Inr r)"
  by (simp add: generate_video_def split: sum.split py_exc.split)

lemma generate_video_sync_download_fails:
  assumes "post_json w (api_url c) (payload c request) = Inr (JObj kvs)"
    and "''operationId'' \<notin> set (map fst kvs)"
    and "map_of kvs ''videoUrl'' = Some url"
    and "download_video w c url (scene_id request) = Inl e"
  shows "generate_video_try w c request = Inl e"
proof -
  from assms(3) have "''videoUrl'' \<in> set (map fst kvs)"
    by (force dest: map_of_SomeD)
  with assms show ?thesis
    by (simp add: generate_video_try_def and_then_def)
qed

text \<open>
  C4 (amended). \<open>generate_video\<close> never raises to its caller: whatever the world answers,
  it returns a response, and an exception raised anywhere in its \<open>try\<close> block (by the POST,
  by the handling of the body, by the download of the artifact) gives the response with
  \<open>success = False\<close> and the exception's text as error. Polling returns as well; an
  exception in a polling round gives the failed response "Polling failed: " followed by
  the text. \<open>_download_video\<close> itself does not absorb an error of the download, it raises
  it to its caller; the caller is \<open>generate_video\<close>'s \<open>try\<close> block or a polling round,
  and absorbs it.
\<close>

theorem generate_video_never_raises:
  "(\<exists>r. generate_video w c request = Inr r) \<and>
   (generate_video_try w c request = Inl e \<longrightarrow>
      generate_video w c request = Inr (failed_response (JStr (exc_text e)))) \<and>
   (post_json w (api_url c) (payload c request) = Inl e \<longrightarrow>
      generate_video w c request = Inr (failed_response (JStr (exc_text e)))) \<and>
   \<not> success (failed_response x) \<and> error (failed_response x) = x \<and>
   (\<exists>r. poll_generation_status w c op request = Inr r) \<and>
   (poll_try w c op request i = Inl e \<longrightarrow>
      poll_round w c op request i =
        Some (failed_response (JStr (''Polling failed: '' @ exc_text e)))) \<and>
   (fetch_file w url (output_path w c sid) = Some e \<longrightarrow> download_video w c url sid = Inl e) \<and>
   (fetch_file w url (output_path w c sid) = None \<longrightarrow>
      download_video w c url sid = Inr (output_path w c sid)) \<and>
   (post_json w (api_url c) (payload c request) = Inr (JObj kvs) \<and>
    ''operationId'' \<notin> set (map fst kvs) \<and> map_of kvs ''videoUrl'' = Some url \<and>
    download_video w c url (scene_id request) = Inl e \<longrightarrow>
      generate_video w c request = Inr (failed_response (JStr (exc_text e))))"
proof -
  have 1: "\<exists>r. generate_video w c request = Inr r"
    by (simp add: generate_video_handler split: sum.split)
  have 2: "generate_video_try w c request = Inl e \<Longrightarrow>
      generate_video w c request = Inr (failed_response (JStr (exc_text e)))"
    by (simp add: generate_video_handler)
  have 3: "post_json w (api_url c) (payload c request) = Inl e \<Longrightarrow>
      generate_video_try w c request = Inl e"
    by (simp add: generate_video_try_def and_then_def)
  have 4: "\<not> success (failed_response x) \<and> error (failed_response x) = x"
    by (simp add: failed_response_def VideoGenerationResponse_init_def)
  have 5: "\<exists>r. poll_generation_status w c op request = Inr r"
    by (simp add: poll_generation_status_def)
  have 6: "poll_try w c op request i = Inl e \<Longrightarrow>
      poll_round w c op request i =
        Some (failed_response (JStr (''Polling failed: '' @ exc_text e)))"
    by (simp add: poll_round_def)
  have 7: "(fetch_file w url (output_path w c sid) = Some e \<longrightarrow> download_video w c url sid = Inl e) \<and>
   (fetch_file w url (output_path w c sid) = None \<longrightarrow>
      download_video w c url sid = Inr (output_path w c sid))"
    by (simp add: download_video_def)
  have 8: "post_json w (api_url c) (payload c request) = Inr (JObj kvs) \<Longrightarrow>
    ''operationId'' \<notin> set (map fst kvs) \<Longrightarrow> map_of kvs ''videoUrl'' = Some url \<Longrightarrow>
    download_video w c url (scene_id request) = Inl e \<Longrightarrow>
      generate_video w c request = Inr (failed_response (JStr (exc_text e)))"
    using generate_video_sync_download_fails[of w c request kvs url e] 2 by simp
  show ?thesis
    using 1 2 3 4 5 6 7 8 by blast
qed

theorem generate_video_never_raises_witness:
  "post_json offline_world (api_url demo_config) (payload demo_config demo_request)
     = Inl (RequestException ''connection refused'') \<and>
   generate_video offline_world demo_config demo_request
     = Inr (failed_response (JStr ''connection refused'')) \<and>
   fetch_file (sync_world (Some (OSError ''disk full''))) (JStr ''http://x/v.mp4'')
     (output_path (sync_world (Some (OSError ''disk full''))) demo_config (scene_id demo_request))
     = Some (OSError ''disk full'') \<and>
   download_video (sync_world (Some (OSError ''disk full''))) demo_config (JStr ''http://x/v.mp4'')
     (scene_id demo_request) = Inl (OSError ''disk full'') \<and>
   generate_video (sync_world (Some (OSError ''disk full''))) demo_config demo_request
     = Inr (failed_response (JStr ''disk full'')) \<and>
   poll_try offline_world demo_config (JStr ''op1'') demo_request 0
     = Inl (RequestException ''connection refused'') \<and>
   poll_round offline_world demo_config (JStr ''op1'') demo_request 0
     = Some (failed_response (JStr ''Polling failed: connection refused'')) \<and>
   download_video (sync_world None) demo_config (JStr ''http://x/v.mp4'') (scene_id demo_request)
     = Inr (output_path (sync_world None) demo_config (scene_id demo_request))"
proof -
  let ?w = "sync_world (Some (OSError ''disk full''))"
  let ?url = "JStr ''http://x/v.mp4''"
  have p: "post_json offline_world u b = Inl (RequestException ''connection refused'')" for u b
    by (simp add: offline_world_def)
  have t: "poll_try offline_world demo_config (JStr ''op1'') demo_request 0
      = Inl (RequestException ''connection refused'')"
    by (simp add: poll_try_def and_then_def offline_world_def)
  have 4: "poll_round offline_world demo_config (JStr ''op1'') demo_request 0
      = Some (failed_response (JStr ''Polling failed: connection refused''))"
    using generate_video_never_raises[where w = offline_world and c = demo_config
        and request = demo_request and e = "RequestException ''connection refused''"
        and op = "JStr ''op1''" and i = 0,
        THEN conjunct2, THEN conjunct2, THEN conjunct2, THEN conjunct2, THEN conjunct2,
        THEN conjunct2, THEN conjunct1] t
    by simp
  have n: "fetch_file (sync_world None) u b = None" for u b
    by (simp add: sync_world_def)
  have 5: "download_video (sync_world None) demo_config ?url (scene_id demo_request)
      = Inr (output_path (sync_world None) demo_config (scene_id demo_request))"
    using generate_video_never_raises[where w = "sync_world None" and c = demo_config
        and url = ?url and sid = "scene_id demo_request",
        THEN conjunct2, THEN conjunct2, THEN conjunct2, THEN conjunct2, THEN conjunct2,
        THEN conjunct2, THEN conjunct2, THEN conjunct2, THEN conjunct1] n
    by simp
  have 1: "generate_video offline_world demo_config demo_request
     = Inr (failed_response (JStr ''connection refused''))"
    using generate_video_never_raises[where w = offline_world and c = demo_config
        and request = demo_request and e = "RequestException ''connection refused''",
        THEN conjunct2, THEN conjunct2, THEN conjunct1] p
    by simp
  have f: "fetch_file ?w u b = Some (OSError ''disk full'')" for u b
    by (simp add: sync_world_def)
  have 2: "download_video ?w demo_config ?url (scene_id demo_request) = Inl (OSError ''disk full'')"
    using generate_video_never_raises[where w = ?w and c = demo_config and url = ?url
        and sid = "scene_id demo_request" and e = "OSError ''disk full''",
        THEN conjunct2, THEN conjunct2, THEN conjunct2, THEN conjunct2, THEN conjunct2,
        THEN conjunct2, THEN conjunct2, THEN conjunct1] f
    by simp
  have q: "post_json ?w u b = Inr (JObj [(''videoUrl'', ?url)])" for u b
    by (simp add: sync_world_def)
  have 3: "generate_video ?w demo_config demo_request = Inr (failed_response (JStr ''disk full''))"
    using generate_video_never_raises[where w = ?w and c = demo_config and url = ?url
        and request = demo_request and e = "OSError ''disk full''"
        and kvs = "[(''videoUrl'', ?url)]",
        THEN conjunct2, THEN conjunct2, THEN conjunct2, THEN conjunct2, THEN conjunct2,
        THEN conjunct2, THEN conjunct2, THEN conjunct2, THEN conjunct2] q 2
    by simp
  show ?thesis
    using 1 2 3 4 5 p f t by simp
qed


theorem download_error_absorbed_counterexample:
  "post_json (sync_world (Some (OSError ''disk full''))) (api_url demo_config)
     (payload demo_config demo_request) = Inr (JObj [(''videoUrl'', JStr ''http://x/v.mp4'')]) \<and>
   download_video (sync_world (Some (OSError ''disk full''))) demo_config (JStr ''http://x/v.mp4'')
     (scene_id demo_request) = Inl (OSError ''disk full'') \<and>
   generate_video (sync_world (Some (OSError ''disk full''))) demo_config demo_request
     = Inr (failed_response (JStr ''disk full''))"
proof -
  let ?w = "sync_world (Some (OSError ''disk full''))"
  have p: "post_json ?w (api_url demo_config) (payload demo_config demo_request)
      = Inr (JObj [(''videoUrl'', JStr ''http://x/v.mp4'')])"
    by (simp add: sync_world_def)
  have d: "download_video ?w demo_config (JStr ''http://x/v.mp4'') (scene_id demo_request)
      = Inl (OSError ''disk full'')"
    by (simp add: download_video_def sync_world_def)
  have "generate_video_try ?w demo_config demo_request = Inl (OSError ''disk full'')"
    by (rule generate_video_sync_download_fails[OF p _ _ d]) simp_all
  then have "generate_video ?w demo_config demo_request = Inr (failed_response (JStr ''disk full''))"
    by (simp add: generate_video_handler)
  with p d show ?thesis
    by simp
qed

section \<open>Properties of the serialization\<close>

lemma and_then_simps [simp]:
  "and_then (Inr x) f = f x" "and_then (Inl e) f = Inl e"
  by (simp_all add: and_then_def)


lemma traverse_as_str: "traverse (as_str field) (map JStr xs) = Inr xs"
  by (induction xs) (simp_all add: as_str_def)

lemma as_str_list_roundtrip: "as_str_list field (JArr (map JStr xs)) = Inr xs"
  by (simp add: as_str_list_def as_list_def traverse_as_str)

lemma as_opt_str_roundtrip: "as_opt_str field (opt_json v) = Inr v"
  by (cases v) (simp_all add: as_opt_str_def opt_json_def)

lemma VideoStyle_of_value: "VideoStyle_of (JStr (VideoStyle_value v)) = Inr v"
  by (cases v) (simp_all add: VideoStyle_of_def VideoStyle_value_def VideoStyle_members_def)

lemma PlatformTarget_of_value: "PlatformTarget_of (JStr (PlatformTarget_value p)) = Inr p"
  by (cases p)
     (simp_all add: PlatformTarget_of_def PlatformTarget_value_def PlatformTarget_members_def)

lemma VideoStyle_of_iff: "VideoStyle_of (JStr s) = Inr v \<longleftrightarrow> s = VideoStyle_value v"
proof
  assume "VideoStyle_of (JStr s) = Inr v"
  then have "find (\<lambda>m. VideoStyle_value m = s) VideoStyle_members = Some v"
    by (simp add: VideoStyle_of_def split: option.splits)
  then show "s = VideoStyle_value v"
    by (auto simp: find_Some_iff)
next
  assume "s = VideoStyle_value v"
  then show "VideoStyle_of (JStr s) = Inr v"
    by (simp add: VideoStyle_of_value)
qed

lemma PlatformTarget_of_iff:
  "PlatformTarget_of (JStr s) = Inr p \<longleftrightarrow> s = PlatformTarget_value p"
proof
  assume "PlatformTarget_of (JStr s) = Inr p"
  then have "find (\<lambda>m. PlatformTarget_value m = s) PlatformTarget_members = Some p"
    by (simp add: PlatformTarget_of_def split: option.splits)
  then show "s = PlatformTarget_value p"
    by (auto simp: find_Some_iff)
next
  assume "s = PlatformTarget_value p"
  then show "PlatformTarget_of (JStr s) = Inr p"
    by (simp add: PlatformTarget_of_value)
qed

lemma VideoStyle_of_unknown:
  "s \<notin> set (map VideoStyle_value VideoStyle_members) \<Longrightarrow>
   VideoStyle_of (JStr s) = Inl (Raised (ValueError (quoted s @ '' is not a valid VideoStyle'')))"
proof -
  assume "s \<notin> set (map VideoStyle_value VideoStyle_members)"
  then have "find (\<lambda>m. VideoStyle_value m = s) VideoStyle_members = None"
    by (auto simp: find_None_iff)
  then show ?thesis
    by (simp add: VideoStyle_of_def)
qed

lemma PlatformTarget_of_unknown:
  "s \<notin> set (map PlatformTarget_value PlatformTarget_members) \<Longrightarrow>
   PlatformTarget_of (JStr s) =
     Inl (Raised (ValueError (quoted s @ '' is not a valid PlatformTarget'')))"
proof -
  assume "s \<notin> set (map PlatformTarget_value PlatformTarget_members)"
  then have "find (\<lambda>m. PlatformTarget_value m = s) PlatformTarget_members = None"
    by (auto simp: find_None_iff)
  then show ?thesis
    by (simp add: PlatformTarget_of_def)
qed

lemma traverse_platforms:
  "traverse PlatformTarget_of (map (JStr \<circ> PlatformTarget_value) ps) = Inr ps"
  by (induction ps) (simp_all add: PlatformTarget_of_value)

lemma segment_roundtrip: "segment_from_dict (segment_to_dict s) = Inr s"
  by (cases s)
     (simp add: segment_from_dict_def segment_to_dict_def required_def optional_def as_int_def
        as_str_def as_opt_str_roundtrip as_str_list_roundtrip)

lemma traverse_segments: "traverse segment_from_dict (map segment_to_dict ss) = Inr ss"
  by (induction ss) (simp_all add: segment_roundtrip)

lemma from_dict_to_dict: "from_dict (to_dict q) = Inr q"
  by (cases q)
     (simp add: from_dict_def to_dict_def required_def optional_def as_str_def as_bool_def
        as_list_def as_opt_str_roundtrip as_str_list_roundtrip VideoStyle_of_value
        traverse_platforms traverse_segments)

lemma from_dict_unknown_style:
  assumes "s \<notin> set (map VideoStyle_value VideoStyle_members)"
  shows "from_dict (dict_set (to_dict q) ''video_style'' (JStr s)) =
     Inl (Raised (ValueError (quoted s @ '' is not a valid VideoStyle'')))"
  using VideoStyle_of_unknown[OF assms]
  by (simp add: from_dict_def to_dict_def required_def as_str_def)

lemma from_dict_unknown_platform:
  assumes "s \<notin> set (map PlatformTarget_value PlatformTarget_members)"
  shows "from_dict (dict_set (to_dict q) ''target_platforms'' (JArr [JStr s])) =
     Inl (Raised (ValueError (quoted s @ '' is not a valid PlatformTarget'')))"
  using PlatformTarget_of_unknown[OF assms]
  by (simp add: from_dict_def to_dict_def required_def optional_def as_str_def as_list_def
      as_str_list_roundtrip VideoStyle_of_value)

text \<open>
  C7. For every questionnaire, with its optional fields filled or not and its lists empty
  or not, parsing the record that \<open>to_dict\<close> produces gives back the questionnaire, equal
  in every field. An enum field is written as the string value of its member and read
  back by exact match of that string; parsing fails with \<open>ValueError\<close> when the style, or
  a platform, is a string that is the value of no member.
\<close>

theorem to_dict_from_dict_roundtrip:
  "from_dict (to_dict q) = Inr q \<and>
   py_getitem (to_dict q) ''video_style'' = Inr (JStr (VideoStyle_value (video_style q))) \<and>
   py_getitem (to_dict q) ''target_platforms'' =
     Inr (JArr (map (JStr \<circ> PlatformTarget_value) (target_platforms q))) \<and>
   (VideoStyle_of (JStr s) = Inr v \<longleftrightarrow> s = VideoStyle_value v) \<and>
   (PlatformTarget_of (JStr s) = Inr p \<longleftrightarrow> s = PlatformTarget_value p) \<and>
   (s \<notin> set (map VideoStyle_value VideoStyle_members) \<longrightarrow>
      from_dict (dict_set (to_dict q) ''video_style'' (JStr s)) =
        Inl (Raised (ValueError (quoted s @ '' is not a valid VideoStyle'')))) \<and>
   (s \<notin> set (map PlatformTarget_value PlatformTarget_members) \<longrightarrow>
      from_dict (dict_set (to_dict q) ''target_platforms'' (JArr [JStr s])) =
        Inl (Raised (ValueError (quoted s @ '' is not a valid PlatformTarget''))))"
proof -
  have "py_getitem (to_dict q) ''video_style'' = Inr (JStr (VideoStyle_value (video_style q)))"
    "py_getitem (to_dict q) ''target_platforms'' =
       Inr (JArr (map (JStr \<circ> PlatformTarget_value) (target_platforms q)))"
    by (simp_all add: to_dict_def)
  then show ?thesis
    using from_dict_to_dict[of q] VideoStyle_of_iff[of s v] PlatformTarget_of_iff[of s p]
      from_dict_unknown_style[of s q] from_dict_unknown_platform[of s q]
    by blast
qed

theorem to_dict_from_dict_roundtrip_witness:
  "from_dict (to_dict full_questionnaire) = Inr full_questionnaire \<and>
   brand_colors full_questionnaire = [] \<and>
   py_getitem (to_dict full_questionnaire) ''video_style'' = Inr (JStr ''casual'') \<and>
   ''Casual'' \<notin> set (map VideoStyle_value VideoStyle_members) \<and>
   from_dict (dict_set (to_dict full_questionnaire) ''video_style'' (JStr ''Casual'')) =
     Inl (Raised (ValueError (quoted ''Casual'' @ '' is not a valid VideoStyle''))) \<and>
   ''vimeo'' \<notin> set (map PlatformTarget_value PlatformTarget_members) \<and>
   from_dict (dict_set (to_dict full_questionnaire) ''target_platforms'' (JArr [JStr ''vimeo''])) =
     Inl (Raised (ValueError (quoted ''vimeo'' @ '' is not a valid PlatformTarget'')))"
proof -
  have a: "''Casual'' \<notin> set (map VideoStyle_value VideoStyle_members)"
    by (simp add: VideoStyle_value_def VideoStyle_members_def)
  have b: "''vimeo'' \<notin> set (map PlatformTarget_value PlatformTarget_members)"
    by (simp add: PlatformTarget_value_def PlatformTarget_members_def)
  have c: "video_style full_questionnaire = CASUAL" "brand_colors full_questionnaire = []"
    by (simp_all add: full_questionnaire_def)
  have 1: "from_dict (to_dict full_questionnaire) = Inr full_questionnaire \<and>
   py_getitem (to_dict full_questionnaire) ''video_style'' = Inr (JStr ''casual'')"
    using to_dict_from_dict_roundtrip[of full_questionnaire] c
    by (simp add: VideoStyle_value_def)
  have 2: "from_dict (dict_set (to_dict full_questionnaire) ''video_style'' (JStr ''Casual'')) =
     Inl (Raised (ValueError (quoted ''Casual'' @ '' is not a valid VideoStyle'')))"
    using to_dict_from_dict_roundtrip[of full_questionnaire "''Casual''"] a by blast
  have 3: "from_dict (dict_set (to_dict full_questionnaire) ''target_platforms'' (JArr [JStr ''vimeo''])) =
     Inl (Raised (ValueError (quoted ''vimeo'' @ '' is not a valid PlatformTarget'')))"
    using to_dict_from_dict_roundtrip[of full_questionnaire "''vimeo''"] b by blast
  show ?thesis
    using 1 2 3 a b c by blast
qed

end
